theory Spec2Isabelle
  imports Main "HOL-Library.Word"
begin

section \<open>Common vocabulary of the firmware\<close>

text \<open>
  \<^verbatim>\<open>esp_err_t\<close> is a C \<^verbatim>\<open>int\<close>; the driver handles
  (\<^verbatim>\<open>i2c_master_bus_handle_t\<close>, \<^verbatim>\<open>i2c_master_dev_handle_t\<close>) are
  pointers of the 32-bit target. The null pointer is the word 0, which is also what the
  C condition \<^verbatim>\<open>if (i2c_bus)\<close> tests against. The result codes and the two bus
  addresses have the values that the platform's and the drivers' headers give them.
\<close>

type_synonym esp_err_t = "32 word"
type_synonym handle = "32 word"

definition ESP_OK :: esp_err_t where
  "ESP_OK = 0"

definition ESP_FAIL :: esp_err_t where
  "ESP_FAIL = - 1"

definition NULL :: handle where
  "NULL = 0"

definition BME280_OK :: "8 word" where
  "BME280_OK = 0"

definition SSD1306_I2C_ADDR_DEFAULT :: "16 word" where
  "SSD1306_I2C_ADDR_DEFAULT = 0x3C"

definition BME280_I2C_ADDR_PRIM :: "16 word" where
  "BME280_I2C_ADDR_PRIM = 0x76"

text \<open>
  A call either returns to its caller, halts the process, or waits forever on something
  that never comes. Everything a function does
  to the outside world (driver calls, delays, log lines) is appended to a trace of events,
  so that "touches no hardware" is "appends nothing to the trace".
\<close>

datatype 'a outcome = Returned 'a | Aborted | Blocked

datatype event =
    I2cNewMasterBus
  | I2cMasterBusAddDevice handle "16 word"
  | Bme280DeviceInit handle
  | ConfigureSensorSettings
  | I2cDeviceProbe handle "16 word"
  | Ssd1306LinkFromDevice handle
  | Ssd1306Init
  | Ssd1306SetCursor "16 word" "16 word"
  | Ssd1306DrawString string
  | Ssd1306Update
  | NvsFlashInit
  | NvsFlashErase
  | EspNetifInit
  | EspEventLoopCreateDefault
  | EspNetifCreateDefaultWifiSta
  | EspWifiInit
  | SemaphoreCreateBinary
  | EspEventHandlerRegister
  | EspWifiSetMode
  | EspWifiSetConfig
  | EspWifiStart
  | SemaphoreTakeIpReady
  | EspNetifSntpInit
  | SetenvTZ string
  | Tzset
  | SntpSyncWait "32 word"
  | TimePoll
  | TaskDelayMs nat
  | SemaphoreCreateMutex
  | TaskCreatePinnedToCore string
  | Ssd1306ClearScreen
  | LogE string
  | LogW string
  | LogI string

text \<open>
  Modelled from the spec: the macro \<^verbatim>\<open>ESP_ERROR_CHECK\<close> comes from a header that is
  not part of the sources. The spec's error taxonomy says that a failed checked call
  "halts the process via the platform's abort path": a result other than
  \<^verbatim>\<open>ESP_OK\<close> aborts, \<^verbatim>\<open>ESP_OK\<close> lets the caller go on.
\<close>

definition ESP_ERROR_CHECK :: "esp_err_t \<Rightarrow> unit outcome" where
  "ESP_ERROR_CHECK rc = (if rc \<noteq> ESP_OK then Aborted else Returned ())"

section \<open>Bus registry (common\_i2c\_init.c)\<close>

text \<open>
  The three file-scope statics, zero-initialised by the C runtime, together with the
  trace of what the module has done so far.
\<close>

record i2c_state =
  i2c_bus :: handle
  sensor_i2c_dev :: handle
  screen_i2c_dev :: handle
  trace :: "event list"

definition i2c_state_init :: i2c_state where
  "i2c_state_init =
     \<lparr>i2c_bus = NULL, sensor_i2c_dev = NULL, screen_i2c_dev = NULL, trace = []\<rparr>"

text \<open>
  The panel geometry comes from \<^verbatim>\<open>config.h\<close> and the display driver's headers, which
  are not among the sources: the three macros are parameters.
\<close>

record config_h =
  WIDTH :: nat
  HEIGHT :: nat
  PIXELS_PER_PAGE :: nat

text \<open>
  The driver library and the hardware behind it are the environment of one call of
  \<^verbatim>\<open>i2c_shared_init\<close>. A handle constructor answers with its return code and with what
  it stores through its out-parameter: \<open>None\<close> when it leaves the pointed-to variable
  as it was.
\<close>

record i2c_env = config_h +
  i2c_new_master_bus :: "esp_err_t \<times> handle option"
  i2c_master_bus_add_device :: "handle \<Rightarrow> 16 word \<Rightarrow> esp_err_t \<times> handle option"
  configure_sensor_settings :: "8 word"
  i2c_device_probe :: "handle \<Rightarrow> 16 word \<Rightarrow> esp_err_t"
  ssd1306_init :: esp_err_t
  ssd1306_update :: esp_err_t

definition emit :: "event \<Rightarrow> i2c_state \<Rightarrow> i2c_state" where
  "emit e s = s\<lparr>trace := trace s @ [e]\<rparr>"

definition i2c_get_bus :: "i2c_state \<Rightarrow> handle \<times> i2c_state" where
  "i2c_get_bus s = (i2c_bus s, s)"

definition i2c_get_bme280 :: "i2c_state \<Rightarrow> handle \<times> i2c_state" where
  "i2c_get_bme280 s = (sensor_i2c_dev s, s)"

definition i2c_get_ssd1306 :: "i2c_state \<Rightarrow> handle \<times> i2c_state" where
  "i2c_get_ssd1306 s = (screen_i2c_dev s, s)"

text \<open>
  \<^verbatim>\<open>init_sensor\<close>: fetch the sensor handle through the accessor, bind it, configure the
  sensor, and log when the configuration result is not \<^verbatim>\<open>BME280_OK\<close>. The function is
  \<^verbatim>\<open>void\<close>: the result code goes nowhere else.
\<close>

definition init_sensor :: "i2c_env \<Rightarrow> i2c_state \<Rightarrow> i2c_state" where
  "init_sensor env s =
     (let (dev, s1) = i2c_get_bme280 s;
          s2 = emit (Bme280DeviceInit dev) s1;
          rslt = configure_sensor_settings env;
          s3 = emit ConfigureSensorSettings s2
      in if rslt \<noteq> BME280_OK
         then emit (LogE ''configure_sensor_settings failed'') s3
         else s3)"

text \<open>
  \<^verbatim>\<open>init_screen\<close>: probe, bind, initialise, draw the start-up message, update. The three
  checked calls abort the process on any result other than \<^verbatim>\<open>ESP_OK\<close>. The message
  \<^verbatim>\<open>"Getting Data"\<close> has \<^verbatim>\<open>sizeof\<close> 13; the cursors are computed in \<^verbatim>\<open>int\<close> and stored
  in \<^verbatim>\<open>uint16_t\<close>.
\<close>

definition init_screen :: "i2c_env \<Rightarrow> i2c_state \<Rightarrow> unit outcome \<times> i2c_state" where
  "init_screen env s =
     (let (bus, s1) = i2c_get_bus s;
          (dev, s2) = i2c_get_ssd1306 s1;
          s3 = emit (I2cDeviceProbe bus SSD1306_I2C_ADDR_DEFAULT) s2
      in case ESP_ERROR_CHECK (i2c_device_probe env bus SSD1306_I2C_ADDR_DEFAULT) of
           Returned _ \<Rightarrow>
           (let s4 = emit (LogI ''SSD1306 detected'') s3;
                s5 = emit (Ssd1306LinkFromDevice dev) s4;
                s6 = emit Ssd1306Init s5
            in case ESP_ERROR_CHECK (ssd1306_init env) of
                 Returned _ \<Rightarrow>
                 (let horisontal_cursor = (word_of_int (int (WIDTH env div 2) - (13 div 2) * 8) :: 16 word);
                      vertical_cursor = (word_of_nat ((HEIGHT env div 8) * 2) :: 16 word);
                      s7 = emit (Ssd1306SetCursor horisontal_cursor vertical_cursor) s6;
                      s8 = emit (Ssd1306DrawString ''Getting Data'') s7;
                      s9 = emit Ssd1306Update s8
                  in case ESP_ERROR_CHECK (ssd1306_update env) of
                       Returned _ \<Rightarrow> (Returned (), s9)
                     | _ \<Rightarrow> (Aborted, s9))
               | _ \<Rightarrow> (Aborted, s6))
         | _ \<Rightarrow> (Aborted, s3))"

text \<open>
  \<^verbatim>\<open>i2c_shared_init\<close>. The guard on the stored bus handle comes first. Each of the three
  \<^verbatim>\<open>ESP_RETURN_ON_ERROR\<close> lines stores what the driver wrote through the out-parameter,
  then logs and returns the driver's code when it is not \<^verbatim>\<open>ESP_OK\<close> (the macro is the
  platform's, read as its name says and as the specification's contract of
  \<open>initialize\<close> has it: a failed attachment is returned to the caller). The display is
  attached before the sensor; the sensor is set up before the screen.
\<close>

definition store_handle :: "handle option \<Rightarrow> handle \<Rightarrow> handle" where
  "store_handle w old = (case w of None \<Rightarrow> old | Some h \<Rightarrow> h)"

definition i2c_shared_init :: "i2c_env \<Rightarrow> i2c_state \<Rightarrow> esp_err_t outcome \<times> i2c_state" where
  "i2c_shared_init env s =
     (if i2c_bus s \<noteq> NULL then (Returned ESP_OK, s)
      else
        let (rc1, w1) = i2c_new_master_bus env;
            s1 = (emit I2cNewMasterBus s)\<lparr>i2c_bus := store_handle w1 (i2c_bus s)\<rparr>
        in if rc1 \<noteq> ESP_OK then (Returned rc1, emit (LogE ''bus fail'') s1)
           else
             let (rc2, w2) = i2c_master_bus_add_device env (i2c_bus s1) SSD1306_I2C_ADDR_DEFAULT;
                 s2 = (emit (I2cMasterBusAddDevice (i2c_bus s1) SSD1306_I2C_ADDR_DEFAULT) s1)
                        \<lparr>screen_i2c_dev := store_handle w2 (screen_i2c_dev s1)\<rparr>
             in if rc2 \<noteq> ESP_OK then (Returned rc2, emit (LogE ''ssd fail'') s2)
                else
                  let (rc3, w3) = i2c_master_bus_add_device env (i2c_bus s2) BME280_I2C_ADDR_PRIM;
                      s3 = (emit (I2cMasterBusAddDevice (i2c_bus s2) BME280_I2C_ADDR_PRIM) s2)
                             \<lparr>sensor_i2c_dev := store_handle w3 (sensor_i2c_dev s2)\<rparr>
                  in if rc3 \<noteq> ESP_OK then (Returned rc3, emit (LogE ''bme fail'') s3)
                     else
                       let s4 = init_sensor env s3
                       in case init_screen env s4 of
                            (Returned _, s5) \<Rightarrow> (Returned ESP_OK, s5)
                          | (_, s5) \<Rightarrow> (Aborted, s5))"

text \<open>
  A sequence of calls, each with the environment it meets. Once a call has halted the
  process there is no next call.
\<close>

fun i2c_shared_init_calls ::
  "i2c_env list \<Rightarrow> i2c_state \<Rightarrow> esp_err_t outcome list \<times> i2c_state" where
  "i2c_shared_init_calls [] s = ([], s)"
| "i2c_shared_init_calls (env # envs) s =
     (case i2c_shared_init env s of
        (Returned rc, s') \<Rightarrow>
          (let (rs, s'') = i2c_shared_init_calls envs s' in (Returned rc # rs, s''))
      | (r, s') \<Rightarrow> ([r], s'))"

section \<open>Network join (wifi.c)\<close>

text \<open>
  The constants of the persistent store's error range, as the platform headers give them
  (base \<^verbatim>\<open>0x1100\<close>, offsets \<^verbatim>\<open>0x0d\<close> and \<^verbatim>\<open>0x10\<close>), and the generic codes used below.
\<close>

definition ESP_ERR_NVS_NO_FREE_PAGES :: esp_err_t where
  "ESP_ERR_NVS_NO_FREE_PAGES = 0x110d"

definition ESP_ERR_NVS_NEW_VERSION_FOUND :: esp_err_t where
  "ESP_ERR_NVS_NEW_VERSION_FOUND = 0x1110"

definition ESP_ERR_NO_MEM :: esp_err_t where
  "ESP_ERR_NO_MEM = 0x101"

definition ESP_ERR_NOT_FOUND :: esp_err_t where
  "ESP_ERR_NOT_FOUND = 0x105"

text \<open>
  What the platform answers to the calls of \<^verbatim>\<open>wifi_init_sta\<close>. \<^verbatim>\<open>nvs_flash_init\<close> can
  be called twice, and \<^verbatim>\<open>esp_event_handler_register\<close> is: their answers are indexed by
  the number of the call, from 0. The final wait on the semaphore has no timeout
  (\<^verbatim>\<open>portMAX_DELAY\<close>): \<open>None\<close> is the wait that never ends, \<open>Some b\<close> the wait that
  comes back with \<^verbatim>\<open>pdTRUE\<close> (\<open>b\<close>) or not.
\<close>

record wifi_env =
  nvs_flash_init :: "nat \<Rightarrow> esp_err_t"
  nvs_flash_erase :: esp_err_t
  esp_netif_init :: esp_err_t
  esp_event_loop_create_default :: esp_err_t
  esp_wifi_init :: esp_err_t
  xSemaphoreCreateBinary :: handle
  esp_event_handler_register :: "nat \<Rightarrow> esp_err_t"
  esp_wifi_set_mode :: esp_err_t
  esp_wifi_set_config :: esp_err_t
  esp_wifi_start :: esp_err_t
  xSemaphoreTake_ip_ready :: "bool option"

text \<open>
  One line \<^verbatim>\<open>ESP_ERROR_CHECK(call())\<close> followed by the rest of the function: the call
  is made (its event is recorded), then its result is checked.
\<close>

definition checked ::
  "event \<Rightarrow> esp_err_t \<Rightarrow> (event list \<Rightarrow> unit outcome \<times> event list) \<Rightarrow>
   event list \<Rightarrow> unit outcome \<times> event list" where
  "checked ev rc rest t =
     (case ESP_ERROR_CHECK rc of
        Returned _ \<Rightarrow> rest (t @ [ev])
      | _ \<Rightarrow> (Aborted, t @ [ev]))"

text \<open>Steps 2 to 7 of \<^verbatim>\<open>wifi_init_sta\<close>: everything after the store's bring-up.\<close>

definition wifi_init_sta_network :: "wifi_env \<Rightarrow> event list \<Rightarrow> unit outcome \<times> event list" where
  "wifi_init_sta_network env =
     checked EspNetifInit (esp_netif_init env)
    (checked EspEventLoopCreateDefault (esp_event_loop_create_default env)
    (\<lambda>t. checked EspWifiInit (esp_wifi_init env)
    (checked SemaphoreCreateBinary
       (if xSemaphoreCreateBinary env \<noteq> NULL then ESP_OK else ESP_ERR_NO_MEM)
    (checked EspEventHandlerRegister (esp_event_handler_register env 0)
    (checked EspEventHandlerRegister (esp_event_handler_register env 1)
    (checked EspWifiSetMode (esp_wifi_set_mode env)
    (checked EspWifiSetConfig (esp_wifi_set_config env)
    (checked EspWifiStart (esp_wifi_start env)
    (\<lambda>t. let t1 = t @ [LogI ''Connecting to WiFi...'']
         in case xSemaphoreTake_ip_ready env of
              None \<Rightarrow> (Blocked, t1 @ [SemaphoreTakeIpReady])
            | Some got \<Rightarrow>
                checked SemaphoreTakeIpReady (if got then ESP_OK else ESP_FAIL)
                  (\<lambda>t. (Returned (), t @ [LogI ''WiFi connected, proceeding...''])) t1)))))))
       (t @ [EspNetifCreateDefaultWifiSta])))"

text \<open>
  \<^verbatim>\<open>wifi_init_sta\<close>, step 1 first: the result of the first \<^verbatim>\<open>nvs_flash_init\<close> is kept in
  \<^verbatim>\<open>err\<close> and compared with the two recoverable codes; only inside that branch are the
  erase and the second initialisation made, each under \<^verbatim>\<open>ESP_ERROR_CHECK\<close>. Nothing else
  reads \<^verbatim>\<open>err\<close>.
\<close>

definition wifi_init_sta :: "wifi_env \<Rightarrow> event list \<Rightarrow> unit outcome \<times> event list" where
  "wifi_init_sta env t =
     (let err = nvs_flash_init env 0;
          t1 = t @ [NvsFlashInit]
      in if err = ESP_ERR_NVS_NO_FREE_PAGES \<or> err = ESP_ERR_NVS_NEW_VERSION_FOUND
         then checked NvsFlashErase (nvs_flash_erase env)
             (checked NvsFlashInit (nvs_flash_init env 1)
             (wifi_init_sta_network env)) t1
         else wifi_init_sta_network env t1)"

section \<open>Time synchronisation (sntp.c)\<close>

text \<open>
  The environment of the time module: the result of starting the client, the tick
  conversion macro of the RTOS configuration, the result of the bounded wait as a function
  of the ticks it is given, and the \<^verbatim>\<open>tm_year\<close> field (a C \<^verbatim>\<open>int\<close>, years since 1900) that
  \<^verbatim>\<open>localtime_r\<close> yields at each poll of the fallback loop. The wait is the platform's
  call with a timeout: it comes back, with \<^verbatim>\<open>ESP_OK\<close> or with an error code.
\<close>

record sntp_env =
  esp_netif_sntp_init :: esp_err_t
  pdMS_TO_TICKS :: "32 word \<Rightarrow> 32 word"
  esp_netif_sntp_sync_wait :: "32 word \<Rightarrow> esp_err_t"
  tm_year :: "nat \<Rightarrow> 32 word"

definition sntp_start :: "sntp_env \<Rightarrow> event list \<Rightarrow> unit outcome \<times> event list" where
  "sntp_start env =
     checked EspNetifSntpInit (esp_netif_sntp_init env)
       (\<lambda>t. (Returned (), t @ [LogI ''SNTP started via esp_netif'']))"

text \<open>
  The fallback \<^verbatim>\<open>for\<close> loop of \<^verbatim>\<open>wait_for_time_blocking\<close>, entered at \<^verbatim>\<open>retry\<close>: read the
  clock, return when \<^verbatim>\<open>tm_year > 2016 - 1900\<close> (a signed comparison), otherwise sleep
  500 ms and go round; after the loop, the warning.
\<close>

function wait_for_time_fallback :: "sntp_env \<Rightarrow> nat \<Rightarrow> event list \<Rightarrow> unit outcome \<times> event list" where
  "wait_for_time_fallback env retry t =
     (if retry < 10
      then (let t1 = t @ [TimePoll]
            in if (2016 - 1900) <s tm_year env retry
               then (Returned (), t1 @ [LogI ''Time looks valid (fallback).''])
               else wait_for_time_fallback env (retry + 1) (t1 @ [TaskDelayMs 500]))
      else (Returned (), t @ [LogW ''Time not synced (timeout).'']))"
  by pat_completeness auto
termination
  by (relation "measure (\<lambda>(env, retry, t). 10 - retry)") auto

declare wait_for_time_fallback.simps [simp del]

definition wait_for_time_blocking ::
  "sntp_env \<Rightarrow> 32 word \<Rightarrow> event list \<Rightarrow> unit outcome \<times> event list" where
  "wait_for_time_blocking env timeout_ms t =
     (let ticks = pdMS_TO_TICKS env timeout_ms;
          r = esp_netif_sntp_sync_wait env ticks;
          t1 = t @ [SntpSyncWait ticks]
      in if r = ESP_OK then (Returned (), t1 @ [LogI ''Time synced''])
         else wait_for_time_fallback env 0 t1)"

definition init_sntp :: "sntp_env \<Rightarrow> event list \<Rightarrow> unit outcome \<times> event list" where
  "init_sntp env t =
     (case sntp_start env t of
        (Returned _, t1) \<Rightarrow>
          wait_for_time_blocking env 10000
            (t1 @ [SetenvTZ ''EET-2EEST,M3.5.0/3,M10.5.0/4'', Tzset])
      | (r, t1) \<Rightarrow> (r, t1))"

section \<open>Measurements and their text (main.c)\<close>

text \<open>
  The fields of \<^verbatim>\<open>struct bme280_data\<close> are C \<^verbatim>\<open>double\<close>s. A double is a sign with
  either a finite magnitude \<open>m * 2 ^ e\<close>, an infinity, or not-a-number;
  \<open>Finite sg m e\<close> stands for \<open>(- 1) ^ sg * m * 2 ^ e\<close>.
\<close>

datatype double = Finite bool nat int | Infinity bool | NaN

text \<open>Nearest integer to \<open>n / d\<close>, ties to the even neighbour (the default rounding mode).\<close>

definition round_half_even :: "nat \<Rightarrow> nat \<Rightarrow> nat" where
  "round_half_even n d =
     (let q = n div d; r = n mod d
      in if 2 * r < d then q
         else if d < 2 * r then q + 1
         else if even q then q else q + 1)"

function bit_length :: "nat \<Rightarrow> nat" where
  "bit_length n = (if n = 0 then 0 else Suc (bit_length (n div 2)))"
  by pat_completeness auto
termination
  by (relation "measure (\<lambda>n. n)") auto

declare bit_length.simps [simp del]

text \<open>
  The binary64 value nearest to \<open>num / den\<close> (with \<open>den > 0\<close>): 53 significant bits,
  exponents of the last place from \<open>- 1074\<close> (subnormals) up to \<open>971\<close>, overflow to
  infinity. \<open>k\<close> is the exponent of the leading bit of the quotient.
\<close>

definition round_to_double :: "bool \<Rightarrow> nat \<Rightarrow> nat \<Rightarrow> double" where
  "round_to_double sg num den =
     (if num = 0 then Finite sg 0 0
      else
        let k0 = int (bit_length num) - int (bit_length den);
            k = (if (if 0 \<le> k0 then den * 2 ^ nat k0 \<le> num else den \<le> num * 2 ^ nat (- k0))
                 then k0 else k0 - 1);
            e = max (k - 52) (- 1074);
            m = (if 0 \<le> e then round_half_even num (den * 2 ^ nat e)
                 else round_half_even (num * 2 ^ nat (- e)) den)
        in if 971 < e \<or> (e = 971 \<and> 2 ^ 53 \<le> m) then Infinity sg else Finite sg m e)"

text \<open>The C operator \<^verbatim>\<open>/\<close> on doubles.\<close>

fun double_div :: "double \<Rightarrow> double \<Rightarrow> double" where
  "double_div NaN y = NaN"
| "double_div x NaN = NaN"
| "double_div (Infinity s1) (Infinity s2) = NaN"
| "double_div (Infinity s1) (Finite s2 m2 e2) = Infinity (s1 \<noteq> s2)"
| "double_div (Finite s1 m1 e1) (Infinity s2) = Finite (s1 \<noteq> s2) 0 0"
| "double_div (Finite s1 m1 e1) (Finite s2 m2 e2) =
     (if m2 = 0 then (if m1 = 0 then NaN else Infinity (s1 \<noteq> s2))
      else if e2 \<le> e1 then round_to_double (s1 \<noteq> s2) (m1 * 2 ^ nat (e1 - e2)) m2
      else round_to_double (s1 \<noteq> s2) m1 (m2 * 2 ^ nat (e2 - e1)))"

text \<open>The literal \<^verbatim>\<open>100.0\<close>, and a decimal literal \<open>num / den\<close> read as a double.\<close>

definition double_100 :: double where
  "double_100 = Finite False 100 0"

definition double_literal :: "nat \<Rightarrow> nat \<Rightarrow> double" where
  "double_literal num den = round_to_double False num den"

text \<open>
  The conversion \<^verbatim>\<open>%.Pf\<close> of the C library: the value rounded to \<open>P\<close> decimals (exactly,
  ties to even), the integer part, a point, and \<open>P\<close> digits.
\<close>

function dec :: "nat \<Rightarrow> string" where
  "dec n = (if n < 10 then [''0123456789'' ! n]
            else dec (n div 10) @ [''0123456789'' ! (n mod 10)])"
  by pat_completeness auto
termination
  by (relation "measure (\<lambda>n. n)") auto

declare dec.simps [simp del]

definition pad_zero :: "nat \<Rightarrow> string \<Rightarrow> string" where
  "pad_zero w ds = replicate (w - length ds) (CHR ''0'') @ ds"

fun fmt_fixed :: "nat \<Rightarrow> double \<Rightarrow> string" where
  "fmt_fixed p NaN = ''nan''"
| "fmt_fixed p (Infinity sg) = (if sg then ''-'' else []) @ ''inf''"
| "fmt_fixed p (Finite sg m e) =
     (let r = (if 0 \<le> e then m * 2 ^ nat e * 10 ^ p
               else round_half_even (m * 10 ^ p) (2 ^ nat (- e)))
      in (if sg then ''-'' else []) @ dec (r div 10 ^ p)
         @ (if p = 0 then [] else ''.'' @ pad_zero p (dec (r mod 10 ^ p))))"

text \<open>\<^verbatim>\<open>snprintf\<close> into a buffer of \<open>n\<close> bytes keeps \<open>n - 1\<close> characters.\<close>

definition snprintf :: "nat \<Rightarrow> string \<Rightarrow> string" where
  "snprintf n text = take (n - 1) text"

record bme280_data =
  pressure :: double
  temperature :: double
  humidity :: double

text \<open>The initialiser \<^verbatim>\<open>{0}\<close> of \<^verbatim>\<open>bme280_device_data\<close>.\<close>

definition bme280_data_zero :: bme280_data where
  "bme280_data_zero =
     \<lparr>pressure = Finite False 0 0, temperature = Finite False 0 0, humidity = Finite False 0 0\<rparr>"

definition format_temperature :: "bme280_data \<Rightarrow> string" where
  "format_temperature d = snprintf 15 (''Temp-'' @ fmt_fixed 1 (temperature d) @ ''C'')"

definition format_pressure :: "bme280_data \<Rightarrow> string" where
  "format_pressure d =
     snprintf 20 (''Pres-'' @ fmt_fixed 2 (double_div (pressure d) double_100) @ ''hPa'')"

definition format_humidity :: "bme280_data \<Rightarrow> string" where
  "format_humidity d = snprintf 15 (''Hum-'' @ fmt_fixed 1 (humidity d) @ ''%'')"

section \<open>The two tasks and the record they share (main.c)\<close>

text \<open>
  \<^verbatim>\<open>sensor_task\<close> and the loop of \<^verbatim>\<open>print_data\<close> run as two tasks of a preemptive
  scheduler. Each task is cut at its statements; a scheduler picks which task makes its
  next step. The C language does not make the struct assignment
  \<^verbatim>\<open>bme280_device_data = tmp\<close> atomic, so it is three steps, one field each; the three
  \<^verbatim>\<open>snprintf\<close> calls of the reader are three steps in the source already.
\<close>

datatype task = SensorTask | RenderTask

datatype sensor_pc =
  S_Read | S_Take | S_CopyPressure | S_CopyTemperature | S_CopyHumidity | S_Give | S_Delay

datatype render_pc =
  R_Compose | R_Take | R_Temperature | R_Pressure | R_Humidity | R_Give | R_Draw

text \<open>
  What the tasks meet: the record that the \<open>k\<close>-th call of \<^verbatim>\<open>bme_forced_read_once\<close>
  leaves in \<^verbatim>\<open>tmp\<close>, the two \<^verbatim>\<open>strftime\<close> texts and the result of
  \<^verbatim>\<open>ssd1306_update\<close> for the \<open>k\<close>-th frame.
\<close>

record tasks_env = config_h +
  bme_forced_read_once :: "nat \<Rightarrow> bme280_data"
  strftime_time :: "nat \<Rightarrow> string"
  strftime_date :: "nat \<Rightarrow> string"
  ssd1306_update_frame :: "nat \<Rightarrow> esp_err_t"

text \<open>
  The shared record and its lock, the locals of each task with the place each task is
  at, and the display calls made so far. Two fields are bookkeeping only and are read
  by no step: \<open>snapshot\<close> collects the values the reader has read in its current
  critical section, and \<open>history\<close> records, in the order in which they happen, each
  completed publication with its argument and each completed snapshot with its values.
\<close>

datatype store_event = Published bme280_data | Observed bme280_data

record sys =
  bme280_device_data :: bme280_data
  s_bme_lock :: "task option"
  sensor_at :: sensor_pc
  tmp :: bme280_data
  reads :: nat
  render_at :: render_pc
  temperature_str :: string
  pressure_str :: string
  humidity_str :: string
  frames :: nat
  halted :: bool
  display :: "event list"
  snapshot :: bme280_data
  history :: "store_event list"

text \<open>
  The state in which \<^verbatim>\<open>app_main\<close> leaves the system when it enters \<^verbatim>\<open>print_data\<close>:
  the shared record still holds its \<^verbatim>\<open>{0}\<close> initialiser, the mutex exists and is free.
  The local \<^verbatim>\<open>tmp\<close> of the sensor task is not initialised: its content is a parameter.
\<close>

definition sys_init :: "bme280_data \<Rightarrow> sys" where
  "sys_init tmp0 =
     \<lparr>bme280_device_data = bme280_data_zero, s_bme_lock = None,
      sensor_at = S_Read, tmp = tmp0, reads = 0,
      render_at = R_Compose, temperature_str = [], pressure_str = [], humidity_str = [],
      frames = 0, halted = False, display = [],
      snapshot = bme280_data_zero, history = []\<rparr>"

text \<open>
  One step of \<^verbatim>\<open>sensor_task\<close>. \<^verbatim>\<open>xSemaphoreTake\<close> with \<^verbatim>\<open>portMAX_DELAY\<close> waits for
  the mutex without a time limit: while another task holds it, the step changes nothing,
  and the task goes on only once it has the mutex.
\<close>

definition sensor_task_step :: "tasks_env \<Rightarrow> sys \<Rightarrow> sys" where
  "sensor_task_step env s =
     (case sensor_at s of
        S_Read \<Rightarrow>
          s\<lparr>tmp := bme_forced_read_once env (reads s), reads := reads s + 1, sensor_at := S_Take\<rparr>
      | S_Take \<Rightarrow>
          (if s_bme_lock s = None
           then s\<lparr>s_bme_lock := Some SensorTask, sensor_at := S_CopyPressure\<rparr>
           else s)
      | S_CopyPressure \<Rightarrow>
          s\<lparr>bme280_device_data := (bme280_device_data s)\<lparr>pressure := pressure (tmp s)\<rparr>,
            sensor_at := S_CopyTemperature\<rparr>
      | S_CopyTemperature \<Rightarrow>
          s\<lparr>bme280_device_data := (bme280_device_data s)\<lparr>temperature := temperature (tmp s)\<rparr>,
            sensor_at := S_CopyHumidity\<rparr>
      | S_CopyHumidity \<Rightarrow>
          s\<lparr>bme280_device_data := (bme280_device_data s)\<lparr>humidity := humidity (tmp s)\<rparr>,
            sensor_at := S_Give\<rparr>
      | S_Give \<Rightarrow>
          s\<lparr>s_bme_lock := None, history := history s @ [Published (tmp s)],
            sensor_at := S_Delay\<rparr>
      | S_Delay \<Rightarrow> s\<lparr>sensor_at := S_Read\<rparr>)"

text \<open>
  The cursor of a line centred on the panel: \<^verbatim>\<open>(WIDTH / 2) - ((strlen(text) * 8) / 2)\<close>,
  stored in a \<^verbatim>\<open>uint16_t\<close>.
\<close>

definition centred :: "tasks_env \<Rightarrow> string \<Rightarrow> 16 word" where
  "centred env text = word_of_int (int (WIDTH env div 2) - int ((length text * 8) div 2))"

definition vertical :: "tasks_env \<Rightarrow> nat \<Rightarrow> int \<Rightarrow> 16 word" where
  "vertical env row off = word_of_int (int (PIXELS_PER_PAGE env * row) - off)"

text \<open>
  One step of the loop of \<^verbatim>\<open>print_data\<close>: the time and the date; the lock; the three
  texts, each from the field of the shared record it reads; the unlock; the drawing of
  humidity, temperature and pressure, the update (checked: a failure halts the process)
  and the delay.
\<close>

definition render_task_step :: "tasks_env \<Rightarrow> sys \<Rightarrow> sys" where
  "render_task_step env s =
     (case render_at s of
        R_Compose \<Rightarrow>
          s\<lparr>display := display s @
               [Ssd1306SetCursor (word_of_int (int (WIDTH env div 2) - (8 * 8 div 2))) (vertical env 1 4),
                Ssd1306DrawString (strftime_time env (frames s)),
                Ssd1306SetCursor (word_of_int (int (WIDTH env div 2) - (8 * 10 div 2))) (vertical env 2 0),
                Ssd1306DrawString (strftime_date env (frames s))],
            render_at := R_Take\<rparr>
      | R_Take \<Rightarrow>
          (if s_bme_lock s = None
           then s\<lparr>s_bme_lock := Some RenderTask, render_at := R_Temperature\<rparr>
           else s)
      | R_Temperature \<Rightarrow>
          s\<lparr>temperature_str := format_temperature (bme280_device_data s),
            snapshot := (snapshot s)\<lparr>temperature := temperature (bme280_device_data s)\<rparr>,
            render_at := R_Pressure\<rparr>
      | R_Pressure \<Rightarrow>
          s\<lparr>pressure_str := format_pressure (bme280_device_data s),
            snapshot := (snapshot s)\<lparr>pressure := pressure (bme280_device_data s)\<rparr>,
            render_at := R_Humidity\<rparr>
      | R_Humidity \<Rightarrow>
          s\<lparr>humidity_str := format_humidity (bme280_device_data s),
            snapshot := (snapshot s)\<lparr>humidity := humidity (bme280_device_data s)\<rparr>,
            render_at := R_Give\<rparr>
      | R_Give \<Rightarrow>
          s\<lparr>s_bme_lock := None, history := history s @ [Observed (snapshot s)],
            render_at := R_Draw\<rparr>
      | R_Draw \<Rightarrow>
          (let s1 = s\<lparr>display := display s @
                       [Ssd1306SetCursor (centred env (humidity_str s)) (vertical env 4 4),
                        Ssd1306DrawString (humidity_str s),
                        Ssd1306SetCursor (centred env (temperature_str s)) (vertical env 5 2),
                        Ssd1306DrawString (temperature_str s),
                        Ssd1306SetCursor (centred env (pressure_str s)) (vertical env 6 0),
                        Ssd1306DrawString (pressure_str s),
                        Ssd1306Update],
                     frames := frames s + 1\<rparr>
           in case ESP_ERROR_CHECK (ssd1306_update_frame env (frames s)) of
                Returned _ \<Rightarrow> s1\<lparr>display := display s1 @ [TaskDelayMs 1000], render_at := R_Compose\<rparr>
              | _ \<Rightarrow> s1\<lparr>halted := True\<rparr>))"

text \<open>
  The scheduler's choice gives the task that moves; once the process has halted nothing
  moves. An interleaving is a list of such choices.
\<close>

definition step :: "tasks_env \<Rightarrow> task \<Rightarrow> sys \<Rightarrow> sys" where
  "step env who s =
     (if halted s then s
      else case who of SensorTask \<Rightarrow> sensor_task_step env s
                     | RenderTask \<Rightarrow> render_task_step env s)"

fun run :: "tasks_env \<Rightarrow> task list \<Rightarrow> sys \<Rightarrow> sys" where
  "run env [] s = s"
| "run env (who # sched) s = run env sched (step env who s)"

section \<open>Bring-up (app\_main)\<close>

record boot_env =
  i2c :: i2c_env
  wifi :: wifi_env
  sntp :: sntp_env
  xSemaphoreCreateMutex :: handle

text \<open>
  \<^verbatim>\<open>app_main\<close> up to the loop of \<^verbatim>\<open>print_data\<close>, from which it never comes back:
  \<open>Returned ()\<close> stands for "the sensor task has been created and the render loop
  has been entered" (after the screen has been cleared, the first statement of
  \<^verbatim>\<open>print_data\<close>). \<^verbatim>\<open>configASSERT\<close> on the mutex halts the process when the mutex could
  not be created.
\<close>

definition app_main :: "boot_env \<Rightarrow> unit outcome \<times> event list" where
  "app_main env =
     (case i2c_shared_init (i2c env) i2c_state_init of
        (Returned rc, s) \<Rightarrow>
          (case ESP_ERROR_CHECK rc of
             Returned _ \<Rightarrow>
               (case wifi_init_sta (wifi env) (trace s) of
                  (Returned _, t1) \<Rightarrow>
                    (case init_sntp (sntp env) t1 of
                       (Returned _, t2) \<Rightarrow>
                         (let t3 = t2 @ [SemaphoreCreateMutex]
                          in if xSemaphoreCreateMutex env = NULL then (Aborted, t3)
                             else (Returned (),
                                   t3 @ [TaskCreatePinnedToCore ''sensor_task'', Ssd1306ClearScreen]))
                     | (r, t2) \<Rightarrow> (r, t2))
                | (r, t1) \<Rightarrow> (r, t1))
           | _ \<Rightarrow> (Aborted, trace s))
      | (Aborted, s) \<Rightarrow> (Aborted, trace s)
      | (Blocked, s) \<Rightarrow> (Blocked, trace s))"

section \<open>Auxiliary notions and concrete inputs\<close>

text \<open>
  The state of the registry after the three handle constructors have run, with whatever
  each of them stored. It names the point from which \<^verbatim>\<open>init_sensor\<close> and
  \<^verbatim>\<open>init_screen\<close> start.
\<close>

definition attached :: "i2c_env \<Rightarrow> i2c_state \<Rightarrow> i2c_state" where
  "attached env s =
     (let s1 = (emit I2cNewMasterBus s)
                 \<lparr>i2c_bus := store_handle (snd (i2c_new_master_bus env)) (i2c_bus s)\<rparr>;
          s2 = (emit (I2cMasterBusAddDevice (i2c_bus s1) SSD1306_I2C_ADDR_DEFAULT) s1)
                 \<lparr>screen_i2c_dev :=
                    store_handle
                      (snd (i2c_master_bus_add_device env (i2c_bus s1) SSD1306_I2C_ADDR_DEFAULT))
                      (screen_i2c_dev s1)\<rparr>
      in (emit (I2cMasterBusAddDevice (i2c_bus s2) BME280_I2C_ADDR_PRIM) s2)
           \<lparr>sensor_i2c_dev :=
              store_handle
                (snd (i2c_master_bus_add_device env (i2c_bus s2) BME280_I2C_ADDR_PRIM))
                (sensor_i2c_dev s2)\<rparr>)"

text \<open>
  A board on which everything answers: the bus is created with handle 1, the display
  attaches with handle 2, the sensor with handle 3. The other boards differ from it in
  one answer each; a failing constructor leaves its out-parameter alone.
\<close>

definition env_ok :: i2c_env where
  "env_ok =
     \<lparr>WIDTH = 128, HEIGHT = 64, PIXELS_PER_PAGE = 8,
      i2c_new_master_bus = (ESP_OK, Some 1),
      i2c_master_bus_add_device =
        (\<lambda>bus addr. if addr = SSD1306_I2C_ADDR_DEFAULT then (ESP_OK, Some 2)
                     else (ESP_OK, Some 3)),
      configure_sensor_settings = BME280_OK,
      i2c_device_probe = (\<lambda>bus addr. ESP_OK),
      ssd1306_init = ESP_OK,
      ssd1306_update = ESP_OK\<rparr>"

definition env_bus_fail :: i2c_env where
  "env_bus_fail = env_ok\<lparr>i2c_new_master_bus := (ESP_FAIL, None)\<rparr>"

definition env_ssd_fail :: i2c_env where
  "env_ssd_fail = env_ok\<lparr>i2c_master_bus_add_device := (\<lambda>bus addr. (ESP_FAIL, None))\<rparr>"

definition env_bme_fail :: i2c_env where
  "env_bme_fail =
     env_ok\<lparr>i2c_master_bus_add_device :=
       (\<lambda>bus addr. if addr = SSD1306_I2C_ADDR_DEFAULT then (ESP_OK, Some 2)
                    else (ESP_FAIL, None))\<rparr>"

definition env_probe_fail :: i2c_env where
  "env_probe_fail = env_ok\<lparr>i2c_device_probe := (\<lambda>bus addr. ESP_FAIL)\<rparr>"

definition env_sensor_cfg_fail :: i2c_env where
  "env_sensor_cfg_fail = env_ok\<lparr>configure_sensor_settings := - 1\<rparr>"

text \<open>The events of a complete set-up on the board \<open>env_ok\<close>.\<close>

definition setup_events :: "event list" where
  "setup_events =
     [I2cNewMasterBus, I2cMasterBusAddDevice 1 0x3C, I2cMasterBusAddDevice 1 0x76,
      Bme280DeviceInit 3, ConfigureSensorSettings, I2cDeviceProbe 1 0x3C,
      LogI ''SSD1306 detected'', Ssd1306LinkFromDevice 2, Ssd1306Init,
      Ssd1306SetCursor 16 16, Ssd1306DrawString ''Getting Data'', Ssd1306Update]"

definition state_ok :: i2c_state where
  "state_ok = \<lparr>i2c_bus = 1, sensor_i2c_dev = 3, screen_i2c_dev = 2, trace = setup_events\<rparr>"

definition state_bus_fail :: i2c_state where
  "state_bus_fail =
     \<lparr>i2c_bus = 0, sensor_i2c_dev = 0, screen_i2c_dev = 0,
      trace = [I2cNewMasterBus, LogE ''bus fail'']\<rparr>"

definition state_retried :: i2c_state where
  "state_retried =
     \<lparr>i2c_bus = 1, sensor_i2c_dev = 3, screen_i2c_dev = 2,
      trace = [I2cNewMasterBus, LogE ''bus fail''] @ setup_events\<rparr>"

definition state_ssd_fail :: i2c_state where
  "state_ssd_fail =
     \<lparr>i2c_bus = 1, sensor_i2c_dev = 0, screen_i2c_dev = 0,
      trace = [I2cNewMasterBus, I2cMasterBusAddDevice 1 0x3C, LogE ''ssd fail'']\<rparr>"

definition state_bme_fail :: i2c_state where
  "state_bme_fail =
     \<lparr>i2c_bus = 1, sensor_i2c_dev = 0, screen_i2c_dev = 2,
      trace = [I2cNewMasterBus, I2cMasterBusAddDevice 1 0x3C, I2cMasterBusAddDevice 1 0x76,
               LogE ''bme fail'']\<rparr>"

text \<open>
  A platform on which the store, the network stack and the radio all answer
  \<^verbatim>\<open>ESP_OK\<close> and an address arrives; two platforms whose first \<^verbatim>\<open>nvs_flash_init\<close>
  fails, one with a recoverable code and one with \<^verbatim>\<open>ESP_ERR_NOT_FOUND\<close> (no partition
  for the store); and one whose second \<^verbatim>\<open>nvs_flash_init\<close> fails too.
\<close>

definition wifi_env_ok :: wifi_env where
  "wifi_env_ok =
     \<lparr>nvs_flash_init = (\<lambda>k. ESP_OK),
      nvs_flash_erase = ESP_OK,
      esp_netif_init = ESP_OK,
      esp_event_loop_create_default = ESP_OK,
      esp_wifi_init = ESP_OK,
      xSemaphoreCreateBinary = 5,
      esp_event_handler_register = (\<lambda>k. ESP_OK),
      esp_wifi_set_mode = ESP_OK,
      esp_wifi_set_config = ESP_OK,
      esp_wifi_start = ESP_OK,
      xSemaphoreTake_ip_ready = Some True\<rparr>"

definition wifi_env_no_free_pages :: wifi_env where
  "wifi_env_no_free_pages =
     wifi_env_ok\<lparr>nvs_flash_init := (\<lambda>k. if k = 0 then ESP_ERR_NVS_NO_FREE_PAGES else ESP_OK)\<rparr>"

definition wifi_env_retry_fails :: wifi_env where
  "wifi_env_retry_fails =
     wifi_env_ok\<lparr>nvs_flash_init := (\<lambda>k. if k = 0 then ESP_ERR_NVS_NEW_VERSION_FOUND else ESP_FAIL)\<rparr>"

definition wifi_env_nvs_not_found :: wifi_env where
  "wifi_env_nvs_not_found =
     wifi_env_ok\<lparr>nvs_flash_init := (\<lambda>k. ESP_ERR_NOT_FOUND)\<rparr>"

text \<open>The events of steps 2 to 7 of \<^verbatim>\<open>wifi_init_sta\<close> when every call succeeds.\<close>

definition network_events :: "event list" where
  "network_events =
     [EspNetifInit, EspEventLoopCreateDefault, EspNetifCreateDefaultWifiSta, EspWifiInit,
      SemaphoreCreateBinary, EspEventHandlerRegister, EspEventHandlerRegister,
      EspWifiSetMode, EspWifiSetConfig, EspWifiStart, LogI ''Connecting to WiFi...'',
      SemaphoreTakeIpReady, LogI ''WiFi connected, proceeding...'']"

text \<open>
  The year the clock shows at the \<open>k\<close>-th poll of the fallback loop, and the timeout
  code of the platform. A time service that answers at once; one that never answers
  while the clock stays at 1970; one that never answers while the clock becomes right
  at the fourth poll. Ticks are 10 ms long on all three.
\<close>

definition clock_year :: "sntp_env \<Rightarrow> nat \<Rightarrow> int" where
  "clock_year env k = 1900 + sint (tm_year env k)"

definition ESP_ERR_TIMEOUT :: esp_err_t where
  "ESP_ERR_TIMEOUT = 0x107"

definition sntp_env_ok :: sntp_env where
  "sntp_env_ok =
     \<lparr>esp_netif_sntp_init = ESP_OK,
      pdMS_TO_TICKS = (\<lambda>ms. ms div 10),
      esp_netif_sntp_sync_wait = (\<lambda>ticks. ESP_OK),
      tm_year = (\<lambda>k. 125)\<rparr>"

definition sntp_env_never :: sntp_env where
  "sntp_env_never =
     sntp_env_ok\<lparr>esp_netif_sntp_sync_wait := (\<lambda>ticks. ESP_ERR_TIMEOUT), tm_year := (\<lambda>k. 70)\<rparr>"

definition sntp_env_late :: sntp_env where
  "sntp_env_late =
     sntp_env_ok\<lparr>esp_netif_sntp_sync_wait := (\<lambda>ticks. ESP_ERR_TIMEOUT),
                 tm_year := (\<lambda>k. if k < 3 then 70 else 125)\<rparr>"

text \<open>The trace of \<open>n\<close> polls that each found the clock wrong.\<close>

definition failed_polls :: "nat \<Rightarrow> event list" where
  "failed_polls n = concat (replicate n [TimePoll, TaskDelayMs 500])"

definition boot_env_probe_fail :: boot_env where
  "boot_env_probe_fail =
     \<lparr>i2c = env_probe_fail, wifi = wifi_env_ok, sntp = sntp_env_ok, xSemaphoreCreateMutex = 6\<rparr>"

text \<open>
  Reading a history: the record most recently published before its end (\<open>cur\<close> when
  there is none), and the histories in which every snapshot shows exactly the record
  most recently published before it.
\<close>

fun latest :: "bme280_data \<Rightarrow> store_event list \<Rightarrow> bme280_data" where
  "latest cur [] = cur"
| "latest cur (Published d # h) = latest d h"
| "latest cur (Observed d # h) = latest cur h"

fun consistent :: "bme280_data \<Rightarrow> store_event list \<Rightarrow> bool" where
  "consistent cur [] = True"
| "consistent cur (Published d # h) = consistent d h"
| "consistent cur (Observed d # h) = (d = cur \<and> consistent cur h)"

text \<open>
  The invariant of the two tasks. The lock is held by the task that is inside its
  critical section, and the two are never inside together; outside the writer's critical
  section the shared record is the one most recently published; inside it, the fields
  already copied agree with \<open>tmp\<close>; the fields the reader has already read agree with
  the shared record; and the history is consistent.
\<close>

fun sensor_in_cs :: "sensor_pc \<Rightarrow> bool" where
  "sensor_in_cs S_CopyPressure = True"
| "sensor_in_cs S_CopyTemperature = True"
| "sensor_in_cs S_CopyHumidity = True"
| "sensor_in_cs S_Give = True"
| "sensor_in_cs pc = False"

fun render_in_cs :: "render_pc \<Rightarrow> bool" where
  "render_in_cs R_Temperature = True"
| "render_in_cs R_Pressure = True"
| "render_in_cs R_Humidity = True"
| "render_in_cs R_Give = True"
| "render_in_cs pc = False"

definition store_inv :: "sys \<Rightarrow> bool" where
  "store_inv s \<longleftrightarrow>
     s_bme_lock s =
       (if sensor_in_cs (sensor_at s) then Some SensorTask
        else if render_in_cs (render_at s) then Some RenderTask else None) \<and>
     \<not> (sensor_in_cs (sensor_at s) \<and> render_in_cs (render_at s)) \<and>
     (\<not> sensor_in_cs (sensor_at s) \<longrightarrow>
        bme280_device_data s = latest bme280_data_zero (history s)) \<and>
     (sensor_at s \<in> {S_CopyTemperature, S_CopyHumidity, S_Give} \<longrightarrow>
        pressure (bme280_device_data s) = pressure (tmp s)) \<and>
     (sensor_at s \<in> {S_CopyHumidity, S_Give} \<longrightarrow>
        temperature (bme280_device_data s) = temperature (tmp s)) \<and>
     (sensor_at s = S_Give \<longrightarrow> humidity (bme280_device_data s) = humidity (tmp s)) \<and>
     (render_at s \<in> {R_Pressure, R_Humidity, R_Give} \<longrightarrow>
        temperature (snapshot s) = temperature (bme280_device_data s)) \<and>
     (render_at s \<in> {R_Humidity, R_Give} \<longrightarrow>
        pressure (snapshot s) = pressure (bme280_device_data s)) \<and>
     (render_at s = R_Give \<longrightarrow> humidity (snapshot s) = humidity (bme280_device_data s)) \<and>
     consistent bme280_data_zero (history s)"

text \<open>
  The steady-state record of the specification, its three numbers read as C literals,
  and a run in which the sensor delivers it: one sampling cycle (read, lock, three
  copies, unlock, delay), then the reader up to its unlock. The panel is 128 pixels
  wide with pages of 8.
\<close>

definition steady_record :: bme280_data where
  "steady_record =
     \<lparr>pressure = double_literal 101325 1,
      temperature = double_literal 213 10,
      humidity = double_literal 45 1\<rparr>"

definition other_record :: bme280_data where
  "other_record =
     \<lparr>pressure = double_literal 99000 1,
      temperature = double_literal 185 10,
      humidity = double_literal 60 1\<rparr>"

definition tasks_env_steady :: tasks_env where
  "tasks_env_steady =
     \<lparr>WIDTH = 128, HEIGHT = 64, PIXELS_PER_PAGE = 8,
      bme_forced_read_once = (\<lambda>k. if k = 0 then steady_record else other_record),
      strftime_time = (\<lambda>k. ''12:00:00''),
      strftime_date = (\<lambda>k. ''2025-01-01''),
      ssd1306_update_frame = (\<lambda>k. ESP_OK)\<rparr>"

definition sampling_cycle :: "task list" where
  "sampling_cycle = replicate 7 SensorTask"

definition snapshot_steps :: "task list" where
  "snapshot_steps = replicate 5 RenderTask"

text \<open>
  An interleaving in which each task runs into the other's critical section and waits:
  the reader asks for the lock while the writer copies, and the writer, back with its
  next reading, asks for it while the reader reads. And a schedule with one sampling
  cycle followed by two complete passes of the reader.
\<close>

definition interleaved_schedule :: "task list" where
  "interleaved_schedule =
     [RenderTask, SensorTask, SensorTask, RenderTask, SensorTask, RenderTask, SensorTask,
      SensorTask, RenderTask, SensorTask, RenderTask, SensorTask, SensorTask, SensorTask,
      RenderTask, RenderTask, SensorTask, RenderTask, RenderTask]"

definition two_snapshots_schedule :: "task list" where
  "two_snapshots_schedule = sampling_cycle @ replicate 13 RenderTask"

section \<open>Properties of the bus registry\<close>

lemmas i2c_defs =
  i2c_shared_init_def init_sensor_def init_screen_def i2c_get_bus_def i2c_get_bme280_def
  i2c_get_ssd1306_def emit_def store_handle_def ESP_ERROR_CHECK_def Let_def
  ESP_OK_def ESP_FAIL_def NULL_def BME280_OK_def SSD1306_I2C_ADDR_DEFAULT_def
  BME280_I2C_ADDR_PRIM_def i2c_state_init_def

subsection \<open>Runs on the concrete boards\<close>

lemma run_ok: "i2c_shared_init env_ok i2c_state_init = (Returned ESP_OK, state_ok)"
  by (simp add: i2c_defs env_ok_def state_ok_def setup_events_def)

lemma run_bus_fail:
  "i2c_shared_init env_bus_fail i2c_state_init = (Returned ESP_FAIL, state_bus_fail)"
  by (simp add: i2c_defs env_ok_def env_bus_fail_def state_bus_fail_def)

lemma run_ok_after_bus_fail:
  "i2c_shared_init env_ok state_bus_fail = (Returned ESP_OK, state_retried)"
  by (simp add: i2c_defs env_ok_def state_bus_fail_def state_retried_def setup_events_def)

lemma run_ssd_fail:
  "i2c_shared_init env_ssd_fail i2c_state_init = (Returned ESP_FAIL, state_ssd_fail)"
  by (simp add: i2c_defs env_ok_def env_ssd_fail_def state_ssd_fail_def)

lemma run_bme_fail:
  "i2c_shared_init env_bme_fail i2c_state_init = (Returned ESP_FAIL, state_bme_fail)"
  by (simp add: i2c_defs env_ok_def env_bme_fail_def state_bme_fail_def)

subsection \<open>The guard\<close>

lemma i2c_shared_init_guard:
  "i2c_bus s \<noteq> NULL \<Longrightarrow> i2c_shared_init env s = (Returned ESP_OK, s)"
  by (simp add: i2c_shared_init_def)

lemma i2c_shared_init_calls_guard:
  "i2c_bus s \<noteq> NULL \<Longrightarrow>
   i2c_shared_init_calls envs s = (replicate (length envs) (Returned ESP_OK), s)"
  by (induction envs) (simp_all add: i2c_shared_init_guard)

subsection \<open>The path through a complete attachment\<close>

lemma init_sensor_regs [simp]:
  "i2c_bus (init_sensor env s) = i2c_bus s"
  "sensor_i2c_dev (init_sensor env s) = sensor_i2c_dev s"
  "screen_i2c_dev (init_sensor env s) = screen_i2c_dev s"
  by (simp_all add: init_sensor_def i2c_get_bme280_def emit_def Let_def)

lemma init_screen_probe_fails:
  "i2c_device_probe env (i2c_bus s) SSD1306_I2C_ADDR_DEFAULT \<noteq> ESP_OK \<Longrightarrow>
   init_screen env s = (Aborted, emit (I2cDeviceProbe (i2c_bus s) SSD1306_I2C_ADDR_DEFAULT) s)"
  by (simp add: init_screen_def i2c_get_bus_def i2c_get_ssd1306_def ESP_ERROR_CHECK_def Let_def)

lemma i2c_bus_attached:
  "i2c_bus (attached env s) = store_handle (snd (i2c_new_master_bus env)) (i2c_bus s)"
  by (simp add: attached_def emit_def Let_def)

lemma i2c_shared_init_attached:
  assumes "i2c_bus s = NULL"
    and "fst (i2c_new_master_bus env) = ESP_OK"
    and "fst (i2c_master_bus_add_device env b SSD1306_I2C_ADDR_DEFAULT) = ESP_OK"
    and "fst (i2c_master_bus_add_device env b BME280_I2C_ADDR_PRIM) = ESP_OK"
    and "b = store_handle (snd (i2c_new_master_bus env)) NULL"
  shows "i2c_shared_init env s =
           (case init_screen env (init_sensor env (attached env s)) of
              (Returned u, s5) \<Rightarrow> (Returned ESP_OK, s5)
            | (r, s5) \<Rightarrow> (Aborted, s5))"
  using assms
  by (simp add: i2c_shared_init_def attached_def emit_def Let_def case_prod_beta
      split: outcome.splits)

subsection \<open>Repeated initialisation\<close>

text \<open>
  Claim C2, as amended. In a sequence of calls of \<^verbatim>\<open>i2c_shared_init\<close>, once a call has
  returned leaving the bus handle set (not null), every later call returns \<^verbatim>\<open>ESP_OK\<close>
  and leaves the whole state as that call left it: the trace has no new event, so no
  hardware is touched, and the three accessors give the values they gave after that call.
\<close>

theorem i2c_shared_init_idempotent_once_bus_set:
  assumes "i2c_shared_init env s0 = (Returned rc, s1)" and "i2c_bus s1 \<noteq> NULL"
  shows "i2c_shared_init_calls (env # envs) s0 =
           (Returned rc # replicate (length envs) (Returned ESP_OK), s1) \<and>
         trace (snd (i2c_shared_init_calls (env # envs) s0)) = trace s1 \<and>
         fst (i2c_get_bus (snd (i2c_shared_init_calls (env # envs) s0))) = fst (i2c_get_bus s1) \<and>
         fst (i2c_get_bme280 (snd (i2c_shared_init_calls (env # envs) s0))) =
           fst (i2c_get_bme280 s1) \<and>
         fst (i2c_get_ssd1306 (snd (i2c_shared_init_calls (env # envs) s0))) =
           fst (i2c_get_ssd1306 s1)"
  using assms by (simp add: i2c_shared_init_calls_guard)

theorem i2c_shared_init_idempotent_once_bus_set_witness:
  "i2c_shared_init env_ok i2c_state_init = (Returned ESP_OK, state_ok) \<and>
   i2c_bus state_ok \<noteq> NULL \<and>
   i2c_shared_init_calls [env_ok, env_ok, env_bus_fail] i2c_state_init =
     ([Returned ESP_OK, Returned ESP_OK, Returned ESP_OK], state_ok)"
proof -
  have b: "i2c_bus state_ok \<noteq> NULL" by (simp add: state_ok_def NULL_def)
  from i2c_shared_init_idempotent_once_bus_set [OF run_ok b, of "[env_ok, env_bus_fail]"] run_ok b
  show ?thesis by simp
qed

text \<open>
  Claim C2 as stated ("for every sequence of calls only the first performs hardware
  setup") fails when the first call could not create the bus: that call returns
  \<^verbatim>\<open>ESP_FAIL\<close> with the bus handle still null, and the second call runs the whole set-up
  (its events are appended to the trace) and changes what \<^verbatim>\<open>i2c_get_bus\<close> returns.
\<close>

theorem second_call_after_bus_failure_sets_up_again:
  "i2c_shared_init_calls [env_bus_fail, env_ok] i2c_state_init =
     ([Returned ESP_FAIL, Returned ESP_OK], state_retried)
   \<and> i2c_shared_init env_bus_fail i2c_state_init = (Returned ESP_FAIL, state_bus_fail)
   \<and> trace state_retried = trace state_bus_fail @ setup_events
   \<and> fst (i2c_get_bus state_bus_fail) = 0
   \<and> fst (i2c_get_bus state_retried) = 1"
  by (simp add: run_bus_fail run_ok_after_bus_fail)
     (simp add: state_retried_def state_bus_fail_def i2c_get_bus_def)

subsection \<open>Partial failure\<close>

lemma attach_failure_leaves_bus:
  assumes "i2c_bus s = NULL" and "sensor_i2c_dev s = NULL" and "screen_i2c_dev s = NULL"
    and "i2c_new_master_bus env = (ESP_OK, Some b)" and "b \<noteq> NULL"
    and "(fst (i2c_master_bus_add_device env b SSD1306_I2C_ADDR_DEFAULT) \<noteq> ESP_OK \<and>
          snd (i2c_master_bus_add_device env b SSD1306_I2C_ADDR_DEFAULT) = None)
       \<or> (fst (i2c_master_bus_add_device env b SSD1306_I2C_ADDR_DEFAULT) = ESP_OK \<and>
          fst (i2c_master_bus_add_device env b BME280_I2C_ADDR_PRIM) \<noteq> ESP_OK \<and>
          snd (i2c_master_bus_add_device env b BME280_I2C_ADDR_PRIM) = None)"
  shows "\<exists>rc s1. i2c_shared_init env s = (Returned rc, s1) \<and> rc \<noteq> ESP_OK \<and> i2c_bus s1 = b \<and>
           sensor_i2c_dev s1 = NULL \<and>
           (fst (i2c_master_bus_add_device env b SSD1306_I2C_ADDR_DEFAULT) \<noteq> ESP_OK
              \<longrightarrow> screen_i2c_dev s1 = NULL)"
proof (cases "fst (i2c_master_bus_add_device env b SSD1306_I2C_ADDR_DEFAULT) = ESP_OK")
  case True
  with assms show ?thesis
    by (simp add: i2c_shared_init_def emit_def store_handle_def Let_def case_prod_beta)
next
  case False
  with assms show ?thesis
    by (simp add: i2c_shared_init_def emit_def store_handle_def Let_def case_prod_beta)
qed

text \<open>
  Claim C3, as amended. The first call creates the bus (a non-null handle \<open>b\<close>) and
  then one of the two calls of \<^verbatim>\<open>i2c_master_bus_add_device\<close> returns an error, leaving
  its out-parameter alone. Then the call returns that error and nothing is rolled back:
  \<^verbatim>\<open>i2c_get_bus\<close> returns \<open>b\<close>; every later sequence of calls returns \<^verbatim>\<open>ESP_OK\<close> each
  time and leaves the state as it is, so the missing handles are never attached;
  \<^verbatim>\<open>i2c_get_bme280\<close> returns null from then on, and \<^verbatim>\<open>i2c_get_ssd1306\<close> returns null
  from then on when the display was the device that failed to attach.
\<close>

theorem partial_attach_failure_is_not_rolled_back:
  assumes "i2c_bus s = NULL" and "sensor_i2c_dev s = NULL" and "screen_i2c_dev s = NULL"
    and "i2c_new_master_bus env = (ESP_OK, Some b)" and "b \<noteq> NULL"
    and "(fst (i2c_master_bus_add_device env b SSD1306_I2C_ADDR_DEFAULT) \<noteq> ESP_OK \<and>
          snd (i2c_master_bus_add_device env b SSD1306_I2C_ADDR_DEFAULT) = None)
       \<or> (fst (i2c_master_bus_add_device env b SSD1306_I2C_ADDR_DEFAULT) = ESP_OK \<and>
          fst (i2c_master_bus_add_device env b BME280_I2C_ADDR_PRIM) \<noteq> ESP_OK \<and>
          snd (i2c_master_bus_add_device env b BME280_I2C_ADDR_PRIM) = None)"
  shows "\<exists>rc s1. i2c_shared_init env s = (Returned rc, s1) \<and> rc \<noteq> ESP_OK \<and>
           fst (i2c_get_bus s1) = b \<and>
           i2c_shared_init_calls envs s1 = (replicate (length envs) (Returned ESP_OK), s1) \<and>
           fst (i2c_get_bme280 s1) = NULL \<and>
           (fst (i2c_master_bus_add_device env b SSD1306_I2C_ADDR_DEFAULT) \<noteq> ESP_OK
              \<longrightarrow> fst (i2c_get_ssd1306 s1) = NULL)"
proof -
  from attach_failure_leaves_bus [OF assms] obtain rc s1 where
    r: "i2c_shared_init env s = (Returned rc, s1)" "rc \<noteq> ESP_OK" "i2c_bus s1 = b"
       "sensor_i2c_dev s1 = NULL"
       "fst (i2c_master_bus_add_device env b SSD1306_I2C_ADDR_DEFAULT) \<noteq> ESP_OK
          \<longrightarrow> screen_i2c_dev s1 = NULL"
    by blast
  from r(3) assms(5) have "i2c_bus s1 \<noteq> NULL" by simp
  then have "i2c_shared_init_calls envs s1 = (replicate (length envs) (Returned ESP_OK), s1)"
    by (rule i2c_shared_init_calls_guard)
  with r show ?thesis
    by (simp add: i2c_get_bus_def i2c_get_bme280_def i2c_get_ssd1306_def)
qed

theorem partial_attach_failure_is_not_rolled_back_witness:
  "\<exists>rc s1. i2c_shared_init env_ssd_fail i2c_state_init = (Returned rc, s1) \<and> rc \<noteq> ESP_OK \<and>
           fst (i2c_get_bus s1) = 1 \<and>
           i2c_shared_init_calls [env_ok, env_ok] s1 = ([Returned ESP_OK, Returned ESP_OK], s1) \<and>
           fst (i2c_get_bme280 s1) = NULL \<and> fst (i2c_get_ssd1306 s1) = NULL"
  using partial_attach_failure_is_not_rolled_back
          [of i2c_state_init env_ssd_fail 1 "[env_ok, env_ok]"]
  by (simp add: i2c_state_init_def env_ssd_fail_def env_ok_def NULL_def ESP_OK_def ESP_FAIL_def)

text \<open>
  Claim C3 as stated has both device accessors return null after any attach failure.
  When the display attaches (handle 2) and the sensor does not, the call returns the
  error with the bus handle set, and \<^verbatim>\<open>i2c_get_ssd1306\<close> returns the display handle, not
  null.
\<close>

theorem display_handle_survives_sensor_attach_failure:
  "i2c_shared_init env_bme_fail i2c_state_init = (Returned ESP_FAIL, state_bme_fail)
   \<and> fst (i2c_new_master_bus env_bme_fail) = ESP_OK
   \<and> fst (i2c_master_bus_add_device env_bme_fail 1 BME280_I2C_ADDR_PRIM) = ESP_FAIL
   \<and> ESP_FAIL \<noteq> ESP_OK
   \<and> fst (i2c_get_bus state_bme_fail) = 1
   \<and> fst (i2c_get_ssd1306 state_bme_fail) = 2
   \<and> (2 :: handle) \<noteq> NULL"
  by (simp add: run_bme_fail)
     (simp add: state_bme_fail_def env_bme_fail_def env_ok_def i2c_get_bus_def i2c_get_ssd1306_def
        ESP_FAIL_def ESP_OK_def NULL_def BME280_I2C_ADDR_PRIM_def SSD1306_I2C_ADDR_DEFAULT_def)

subsection \<open>The display probe\<close>

lemma app_main_aborts_with_i2c:
  assumes "fst (i2c_shared_init (i2c benv) i2c_state_init) = Aborted"
  shows "fst (app_main benv) = Aborted"
proof -
  obtain r s' where rs: "i2c_shared_init (i2c benv) i2c_state_init = (r, s')"
    by (cases "i2c_shared_init (i2c benv) i2c_state_init")
  with assms have "r = Aborted" by simp
  with rs show ?thesis by (simp add: app_main_def)
qed

text \<open>
  Claim C5. During bring-up (the bus handle is still null, the bus is created and both
  devices attach), if the display does not answer the probe at its fixed address
  (\<^verbatim>\<open>i2c_device_probe\<close> returns anything but \<^verbatim>\<open>ESP_OK\<close>), \<^verbatim>\<open>i2c_shared_init\<close> halts
  the process: it does not return, whatever the sensor configuration did. Consequently
  \<^verbatim>\<open>app_main\<close> halts too and never enters the render loop.
\<close>

theorem display_probe_failure_halts:
  assumes "i2c_bus s = NULL"
    and "fst (i2c_new_master_bus env) = ESP_OK"
    and "fst (i2c_master_bus_add_device env b SSD1306_I2C_ADDR_DEFAULT) = ESP_OK"
    and "fst (i2c_master_bus_add_device env b BME280_I2C_ADDR_PRIM) = ESP_OK"
    and "b = store_handle (snd (i2c_new_master_bus env)) NULL"
    and "i2c_device_probe env b SSD1306_I2C_ADDR_DEFAULT \<noteq> ESP_OK"
  shows "fst (i2c_shared_init env s) = Aborted \<and> fst (app_main (benv\<lparr>i2c := env\<rparr>)) = Aborted"
proof -
  have run: "i2c_bus s' = NULL \<Longrightarrow> fst (i2c_shared_init env s') = Aborted" for s'
  proof -
    assume n: "i2c_bus s' = NULL"
    have r: "i2c_shared_init env s' =
           (case init_screen env (init_sensor env (attached env s')) of
              (Returned u, s5) \<Rightarrow> (Returned ESP_OK, s5)
            | (r, s5) \<Rightarrow> (Aborted, s5))"
      by (rule i2c_shared_init_attached [OF n assms(2-5)])
    from n assms(5,6)
    have "i2c_device_probe env (i2c_bus (init_sensor env (attached env s'))) SSD1306_I2C_ADDR_DEFAULT
            \<noteq> ESP_OK"
      by (simp add: i2c_bus_attached)
    from init_screen_probe_fails [OF this] r show ?thesis by simp
  qed
  have "i2c_bus i2c_state_init = NULL" by (simp add: i2c_state_init_def)
  from run [OF this] have "fst (app_main (benv\<lparr>i2c := env\<rparr>)) = Aborted"
    by (simp add: app_main_aborts_with_i2c)
  with run [OF assms(1)] show ?thesis by simp
qed

theorem display_probe_failure_halts_witness:
  "fst (i2c_shared_init env_probe_fail i2c_state_init) = Aborted \<and>
   fst (app_main boot_env_probe_fail) = Aborted"
  using display_probe_failure_halts [of i2c_state_init env_probe_fail 1 boot_env_probe_fail]
  by (simp add: i2c_state_init_def env_probe_fail_def env_ok_def store_handle_def
        ESP_OK_def ESP_FAIL_def NULL_def boot_env_probe_fail_def)

subsection \<open>The sensor configuration\<close>

lemma init_screen_ok:
  assumes "i2c_device_probe env (i2c_bus s) SSD1306_I2C_ADDR_DEFAULT = ESP_OK"
    and "ssd1306_init env = ESP_OK" and "ssd1306_update env = ESP_OK"
  shows "fst (init_screen env s) = Returned () \<and>
         trace (snd (init_screen env s)) = trace s @
           [I2cDeviceProbe (i2c_bus s) SSD1306_I2C_ADDR_DEFAULT, LogI ''SSD1306 detected'',
            Ssd1306LinkFromDevice (screen_i2c_dev s), Ssd1306Init,
            Ssd1306SetCursor (word_of_int (int (WIDTH env div 2) - 48)) (word_of_nat (HEIGHT env div 8 * 2)),
            Ssd1306DrawString ''Getting Data'', Ssd1306Update]"
  using assms
  by (simp add: init_screen_def i2c_get_bus_def i2c_get_ssd1306_def ESP_ERROR_CHECK_def emit_def Let_def)

lemma trace_init_sensor:
  "trace (init_sensor env s) = trace s @
     [Bme280DeviceInit (sensor_i2c_dev s), ConfigureSensorSettings] @
     (if configure_sensor_settings env \<noteq> BME280_OK
      then [LogE ''configure_sensor_settings failed''] else [])"
  by (simp add: init_sensor_def i2c_get_bme280_def emit_def Let_def)

text \<open>
  Claim C6. On the path where the bus is created, both devices attach and the screen
  calls succeed, \<^verbatim>\<open>i2c_shared_init\<close> returns \<^verbatim>\<open>ESP_OK\<close> for every result code \<open>rslt\<close>
  of \<^verbatim>\<open>configure_sensor_settings\<close>. The events of the call are those of the attachment,
  the sensor set-up, one error log line exactly when \<open>rslt\<close> is not \<^verbatim>\<open>BME280_OK\<close>, and
  then the complete screen set-up: the failure is logged and goes nowhere else.
\<close>

theorem sensor_configuration_failure_is_tolerated:
  assumes "i2c_bus s = NULL"
    and "fst (i2c_new_master_bus env) = ESP_OK"
    and "fst (i2c_master_bus_add_device env b SSD1306_I2C_ADDR_DEFAULT) = ESP_OK"
    and "fst (i2c_master_bus_add_device env b BME280_I2C_ADDR_PRIM) = ESP_OK"
    and "b = store_handle (snd (i2c_new_master_bus env)) NULL"
    and "i2c_device_probe env b SSD1306_I2C_ADDR_DEFAULT = ESP_OK"
    and "ssd1306_init env = ESP_OK" and "ssd1306_update env = ESP_OK"
  shows "fst (i2c_shared_init (env\<lparr>configure_sensor_settings := rslt\<rparr>) s) = Returned ESP_OK \<and>
         trace (snd (i2c_shared_init (env\<lparr>configure_sensor_settings := rslt\<rparr>) s)) =
           trace (attached env s) @
           [Bme280DeviceInit (sensor_i2c_dev (attached env s)), ConfigureSensorSettings] @
           (if rslt \<noteq> BME280_OK then [LogE ''configure_sensor_settings failed''] else []) @
           [I2cDeviceProbe b SSD1306_I2C_ADDR_DEFAULT, LogI ''SSD1306 detected'',
            Ssd1306LinkFromDevice (screen_i2c_dev (attached env s)), Ssd1306Init,
            Ssd1306SetCursor (word_of_int (int (WIDTH env div 2) - 48)) (word_of_nat (HEIGHT env div 8 * 2)),
            Ssd1306DrawString ''Getting Data'', Ssd1306Update]"
proof -
  let ?env = "env\<lparr>configure_sensor_settings := rslt\<rparr>"
  have att: "attached ?env s = attached env s" by (simp add: attached_def)
  have a: "fst (i2c_new_master_bus ?env) = ESP_OK"
    "fst (i2c_master_bus_add_device ?env b SSD1306_I2C_ADDR_DEFAULT) = ESP_OK"
    "fst (i2c_master_bus_add_device ?env b BME280_I2C_ADDR_PRIM) = ESP_OK"
    "b = store_handle (snd (i2c_new_master_bus ?env)) NULL"
    using assms(2-5) by simp_all
  have r: "i2c_shared_init ?env s =
           (case init_screen ?env (init_sensor ?env (attached env s)) of
              (Returned u, s5) \<Rightarrow> (Returned ESP_OK, s5)
            | (r, s5) \<Rightarrow> (Aborted, s5))"
    using i2c_shared_init_attached [OF assms(1) a] att by simp
  have bus: "i2c_bus (init_sensor ?env (attached env s)) = b"
    using assms(1,5) by (simp add: i2c_bus_attached)
  have scr: "i2c_device_probe ?env (i2c_bus (init_sensor ?env (attached env s))) SSD1306_I2C_ADDR_DEFAULT = ESP_OK"
    "ssd1306_init ?env = ESP_OK" "ssd1306_update ?env = ESP_OK"
    using assms(6-8) bus by simp_all
  from init_screen_ok [OF scr] r bus show ?thesis
    by (simp add: case_prod_beta trace_init_sensor)
qed

theorem sensor_configuration_failure_is_tolerated_witness:
  "i2c_shared_init env_sensor_cfg_fail i2c_state_init =
     (Returned ESP_OK,
      \<lparr>i2c_bus = 1, sensor_i2c_dev = 3, screen_i2c_dev = 2,
       trace = [I2cNewMasterBus, I2cMasterBusAddDevice 1 0x3C, I2cMasterBusAddDevice 1 0x76,
                Bme280DeviceInit 3, ConfigureSensorSettings,
                LogE ''configure_sensor_settings failed'', I2cDeviceProbe 1 0x3C,
                LogI ''SSD1306 detected'', Ssd1306LinkFromDevice 2, Ssd1306Init,
                Ssd1306SetCursor 16 16, Ssd1306DrawString ''Getting Data'', Ssd1306Update]\<rparr>)"
proof -
  have e: "env_sensor_cfg_fail = env_ok\<lparr>configure_sensor_settings := - 1\<rparr>"
    by (simp add: env_sensor_cfg_fail_def)
  have "fst (i2c_shared_init env_sensor_cfg_fail i2c_state_init) = Returned ESP_OK"
    using sensor_configuration_failure_is_tolerated [of i2c_state_init env_ok 1 "- 1"]
    by (simp add: e i2c_state_init_def env_ok_def store_handle_def NULL_def)
  then show ?thesis
    by (simp add: i2c_defs env_sensor_cfg_fail_def env_ok_def)
qed

subsection \<open>The accessors\<close>

text \<open>
  Claim C8, as amended. Before \<^verbatim>\<open>i2c_shared_init\<close> has been entered, the three statics
  hold their zero initialisers and each accessor returns the null handle. In every state
  an accessor returns exactly the handle stored in its static and leaves the state as it
  found it.
\<close>

theorem accessors_return_null_before_init:
  "i2c_get_bus i2c_state_init = (NULL, i2c_state_init) \<and>
   i2c_get_bme280 i2c_state_init = (NULL, i2c_state_init) \<and>
   i2c_get_ssd1306 i2c_state_init = (NULL, i2c_state_init) \<and>
   i2c_get_bus s = (i2c_bus s, s) \<and>
   i2c_get_bme280 s = (sensor_i2c_dev s, s) \<and>
   i2c_get_ssd1306 s = (screen_i2c_dev s, s)"
  by (simp add: i2c_get_bus_def i2c_get_bme280_def i2c_get_ssd1306_def i2c_state_init_def)

text \<open>
  Claim C8 as stated ("called before \<^verbatim>\<open>i2c_shared_init\<close> has completed, it returns a
  null handle") fails inside the call itself. On the board \<open>env_ok\<close>, once the three
  handle constructors have stored their handles and before the call has completed,
  \<^verbatim>\<open>init_sensor\<close> calls \<^verbatim>\<open>i2c_get_bme280\<close> and \<^verbatim>\<open>init_screen\<close> calls \<^verbatim>\<open>i2c_get_bus\<close>
  and \<^verbatim>\<open>i2c_get_ssd1306\<close>: in that state the accessors return the handles 1, 3 and 2,
  none of them null, and the sensor set-up binds the handle 3 it was given. The two
  set-up functions then lead from that state to the state in which the call returns.
\<close>

theorem accessors_inside_init_return_stored_handles:
  "fst (i2c_get_bus (attached env_ok i2c_state_init)) = 1
   \<and> fst (i2c_get_bme280 (attached env_ok i2c_state_init)) = 3
   \<and> fst (i2c_get_ssd1306 (attached env_ok i2c_state_init)) = 2
   \<and> (1 :: handle) \<noteq> NULL \<and> (3 :: handle) \<noteq> NULL \<and> (2 :: handle) \<noteq> NULL
   \<and> trace (init_sensor env_ok (attached env_ok i2c_state_init)) =
       [I2cNewMasterBus, I2cMasterBusAddDevice 1 0x3C, I2cMasterBusAddDevice 1 0x76,
        Bme280DeviceInit 3, ConfigureSensorSettings]
   \<and> init_screen env_ok (init_sensor env_ok (attached env_ok i2c_state_init)) =
       (Returned (), state_ok)
   \<and> i2c_shared_init env_ok i2c_state_init = (Returned ESP_OK, state_ok)"
  by (simp add: run_ok)
     (simp add: i2c_defs attached_def env_ok_def state_ok_def setup_events_def)

section \<open>Properties of the network join\<close>

lemmas wifi_defs =
  wifi_init_sta_def wifi_init_sta_network_def checked_def ESP_ERROR_CHECK_def Let_def
  ESP_OK_def ESP_FAIL_def NULL_def ESP_ERR_NVS_NO_FREE_PAGES_def
  ESP_ERR_NVS_NEW_VERSION_FOUND_def ESP_ERR_NO_MEM_def ESP_ERR_NOT_FOUND_def

lemma wifi_init_sta_network_ok:
  "wifi_init_sta_network wifi_env_ok t = (Returned (), t @ network_events)"
  by (simp add: wifi_defs wifi_env_ok_def network_events_def)

lemma wifi_init_sta_recoverable:
  assumes "nvs_flash_init env 0 = ESP_ERR_NVS_NO_FREE_PAGES \<or>
           nvs_flash_init env 0 = ESP_ERR_NVS_NEW_VERSION_FOUND"
  shows "wifi_init_sta env t =
           (if nvs_flash_erase env \<noteq> ESP_OK then (Aborted, t @ [NvsFlashInit, NvsFlashErase])
            else if nvs_flash_init env 1 \<noteq> ESP_OK
            then (Aborted, t @ [NvsFlashInit, NvsFlashErase, NvsFlashInit])
            else wifi_init_sta_network env (t @ [NvsFlashInit, NvsFlashErase, NvsFlashInit]))"
  using assms by (auto simp add: wifi_init_sta_def checked_def ESP_ERROR_CHECK_def Let_def)

lemma wifi_init_sta_not_recoverable:
  assumes "nvs_flash_init env 0 \<noteq> ESP_ERR_NVS_NO_FREE_PAGES"
    and "nvs_flash_init env 0 \<noteq> ESP_ERR_NVS_NEW_VERSION_FOUND"
  shows "wifi_init_sta env t = wifi_init_sta_network env (t @ [NvsFlashInit])"
  using assms by (simp add: wifi_init_sta_def Let_def)

lemma wifi_init_sta_no_free_pages_run:
  "wifi_init_sta wifi_env_no_free_pages [] =
     (Returned (), [NvsFlashInit, NvsFlashErase, NvsFlashInit] @ network_events)"
  by (simp add: wifi_defs wifi_env_no_free_pages_def wifi_env_ok_def network_events_def)

lemma wifi_init_sta_retry_fails_run:
  "wifi_init_sta wifi_env_retry_fails [] = (Aborted, [NvsFlashInit, NvsFlashErase, NvsFlashInit])"
  by (simp add: wifi_defs wifi_env_retry_fails_def wifi_env_ok_def)

text \<open>
  Claim C9 at the input where it fails. The first \<^verbatim>\<open>nvs_flash_init\<close> returns
  \<^verbatim>\<open>ESP_ERR_NOT_FOUND\<close>, a failure that is neither of the two recoverable codes. The
  code does not halt: nothing checks \<^verbatim>\<open>err\<close> on this path, and \<^verbatim>\<open>wifi_init_sta\<close> goes
  on through the whole network join and returns.
\<close>

theorem wifi_init_sta_ignores_other_nvs_failure:
  "nvs_flash_init wifi_env_nvs_not_found 0 = ESP_ERR_NOT_FOUND
   \<and> ESP_ERR_NOT_FOUND \<noteq> ESP_OK
   \<and> ESP_ERR_NOT_FOUND \<noteq> ESP_ERR_NVS_NO_FREE_PAGES
   \<and> ESP_ERR_NOT_FOUND \<noteq> ESP_ERR_NVS_NEW_VERSION_FOUND
   \<and> wifi_init_sta wifi_env_nvs_not_found [] = (Returned (), NvsFlashInit # network_events)"
  by (simp add: wifi_defs wifi_env_nvs_not_found_def wifi_env_ok_def network_events_def)

section \<open>Properties of the time synchronisation\<close>

lemma year_check:
  "(116 <s tm_year env k) = (2016 < clock_year env k)"
  by (simp add: word_sless_alt clock_year_def)

lemma failed_polls_Suc: "failed_polls (Suc n) = [TimePoll, TaskDelayMs 500] @ failed_polls n"
  by (simp add: failed_polls_def)

lemma fallback_all_fail:
  assumes "\<forall>j. retry \<le> j \<and> j < 10 \<longrightarrow> clock_year env j \<le> 2016"
  shows "wait_for_time_fallback env retry t =
           (Returned (), t @ failed_polls (10 - retry) @ [LogW ''Time not synced (timeout).''])"
  using assms
proof (induction env retry t rule: wait_for_time_fallback.induct)
  case (1 env retry t)
  show ?case
  proof (cases "retry < 10")
    case True
    with "1.prems" have bad: "\<not> 2016 < clock_year env retry" by (simp add: not_less)
    from "1.prems" have "\<forall>j. retry + 1 \<le> j \<and> j < 10 \<longrightarrow> clock_year env j \<le> 2016" by simp
    with "1.IH" [OF True refl] bad
    have "wait_for_time_fallback env (retry + 1) (t @ [TimePoll, TaskDelayMs 500]) =
            (Returned (), (t @ [TimePoll, TaskDelayMs 500]) @ failed_polls (10 - (retry + 1)) @
              [LogW ''Time not synced (timeout).''])"
      by (simp add: year_check)
    moreover from True have "10 - retry = Suc (10 - (retry + 1))" by simp
    ultimately show ?thesis
      using True bad
      by (subst wait_for_time_fallback.simps) (simp add: year_check failed_polls_Suc Let_def)
  next
    case False
    then show ?thesis
      by (subst wait_for_time_fallback.simps) (simp add: failed_polls_def)
  qed
qed

lemma fallback_first_valid:
  assumes "retry \<le> k" and "k < 10" and "2016 < clock_year env k"
    and "\<forall>j. retry \<le> j \<and> j < k \<longrightarrow> clock_year env j \<le> 2016"
  shows "wait_for_time_fallback env retry t =
           (Returned (), t @ failed_polls (k - retry) @ [TimePoll, LogI ''Time looks valid (fallback).''])"
  using assms
proof (induction env retry t rule: wait_for_time_fallback.induct)
  case (1 env retry t)
  from "1.prems" have lt: "retry < 10" by simp
  show ?case
  proof (cases "retry = k")
    case True
    with "1.prems" lt show ?thesis
      by (subst wait_for_time_fallback.simps) (simp add: year_check failed_polls_def Let_def)
  next
    case False
    with "1.prems" have less: "retry < k" by simp
    with "1.prems" have bad: "\<not> 2016 < clock_year env retry" by (simp add: not_less)
    from less "1.prems" have p: "retry + 1 \<le> k" "k < 10" "2016 < clock_year env k"
      "\<forall>j. retry + 1 \<le> j \<and> j < k \<longrightarrow> clock_year env j \<le> 2016" by simp_all
    have "wait_for_time_fallback env (retry + 1) (t @ [TimePoll, TaskDelayMs 500]) =
            (Returned (), (t @ [TimePoll, TaskDelayMs 500]) @ failed_polls (k - (retry + 1)) @
              [TimePoll, LogI ''Time looks valid (fallback).''])"
      using "1.IH" [OF lt refl _ p] bad by (simp add: year_check)
    moreover from less have "k - retry = Suc (k - (retry + 1))" by simp
    ultimately show ?thesis
      using lt bad
      by (subst wait_for_time_fallback.simps) (simp add: year_check failed_polls_Suc Let_def)
  qed
qed


lemma fallback_returns:
  "fst (wait_for_time_fallback env retry t) = Returned ()"
proof (induction env retry t rule: wait_for_time_fallback.induct)
  case (1 env retry t)
  then show ?case
    by (subst wait_for_time_fallback.simps) (simp add: Let_def)
qed

lemma fallback_polls_bounded:
  "length (filter (\<lambda>e. e = TimePoll) (snd (wait_for_time_fallback env retry t)))
     \<le> length (filter (\<lambda>e. e = TimePoll) t) + (10 - retry)"
proof (induction env retry t rule: wait_for_time_fallback.induct)
  case (1 env retry t)
  show ?case
  proof (cases "retry < 10")
    case True
    with "1.IH" [OF True refl] show ?thesis
      by (subst wait_for_time_fallback.simps) (auto simp add: Let_def)
  next
    case False
    then show ?thesis
      by (subst wait_for_time_fallback.simps) simp
  qed
qed

text \<open>
  Claim C7. For every timeout and every behaviour of the time service and the clock,
  \<^verbatim>\<open>wait_for_time_blocking\<close> returns to its caller (it neither halts the process nor
  waits forever) after at most 10 polls of the clock. When the wait for synchronisation
  succeeds there is no poll. Otherwise the polls are 500 ms apart: if the \<open>k\<close>-th poll
  (counting from 0, \<open>k < 10\<close>) is the first to show a year above 2016, the function
  returns right after it with an information line; if none of the 10 polls does, it logs
  the warning and returns.
\<close>

theorem wait_for_time_blocking_always_returns:
  "fst (wait_for_time_blocking env timeout_ms t) = Returned () \<and>
   length (filter (\<lambda>e. e = TimePoll) (snd (wait_for_time_blocking env timeout_ms t)))
     \<le> length (filter (\<lambda>e. e = TimePoll) t) + 10 \<and>
   (esp_netif_sntp_sync_wait env (pdMS_TO_TICKS env timeout_ms) = ESP_OK \<longrightarrow>
      snd (wait_for_time_blocking env timeout_ms t) =
        t @ [SntpSyncWait (pdMS_TO_TICKS env timeout_ms), LogI ''Time synced'']) \<and>
   (esp_netif_sntp_sync_wait env (pdMS_TO_TICKS env timeout_ms) \<noteq> ESP_OK \<longrightarrow>
      (\<forall>k<10. 2016 < clock_year env k \<longrightarrow> (\<forall>j<k. clock_year env j \<le> 2016) \<longrightarrow>
         snd (wait_for_time_blocking env timeout_ms t) =
           t @ [SntpSyncWait (pdMS_TO_TICKS env timeout_ms)] @ failed_polls k @
           [TimePoll, LogI ''Time looks valid (fallback).'']) \<and>
      ((\<forall>j<10. clock_year env j \<le> 2016) \<longrightarrow>
         snd (wait_for_time_blocking env timeout_ms t) =
           t @ [SntpSyncWait (pdMS_TO_TICKS env timeout_ms)] @ failed_polls 10 @
           [LogW ''Time not synced (timeout).'']))"
proof (cases "esp_netif_sntp_sync_wait env (pdMS_TO_TICKS env timeout_ms) = ESP_OK")
  case True
  then show ?thesis by (simp add: wait_for_time_blocking_def Let_def)
next
  case False
  let ?t1 = "t @ [SntpSyncWait (pdMS_TO_TICKS env timeout_ms)]"
  from False have w: "wait_for_time_blocking env timeout_ms t = wait_for_time_fallback env 0 ?t1"
    by (simp add: wait_for_time_blocking_def Let_def)
  have valid: "snd (wait_for_time_fallback env 0 ?t1) =
      ?t1 @ failed_polls k @ [TimePoll, LogI ''Time looks valid (fallback).'']"
    if "k < 10" "2016 < clock_year env k" "\<forall>j<k. clock_year env j \<le> 2016" for k
    using fallback_first_valid [of 0 k env ?t1] that by simp
  have none: "snd (wait_for_time_fallback env 0 ?t1) =
      ?t1 @ failed_polls 10 @ [LogW ''Time not synced (timeout).'']"
    if "\<forall>j<10. clock_year env j \<le> 2016"
    using fallback_all_fail [of 0 env ?t1] that by simp
  from fallback_polls_bounded [of env 0 ?t1]
  have bound: "length (filter (\<lambda>e. e = TimePoll) (snd (wait_for_time_fallback env 0 ?t1)))
     \<le> length (filter (\<lambda>e. e = TimePoll) t) + 10" by simp
  from False w valid none bound show ?thesis
    by (simp add: fallback_returns)
qed

lemma failed_polls_3:
  "failed_polls 3 = [TimePoll, TaskDelayMs 500, TimePoll, TaskDelayMs 500, TimePoll, TaskDelayMs 500]"
  by (simp add: failed_polls_def eval_nat_numeral)

theorem wait_for_time_blocking_always_returns_witness:
  "wait_for_time_blocking sntp_env_ok 10000 [] =
     (Returned (), [SntpSyncWait 1000, LogI ''Time synced'']) \<and>
   wait_for_time_blocking sntp_env_late 10000 [] =
     (Returned (), [SntpSyncWait 1000, TimePoll, TaskDelayMs 500, TimePoll, TaskDelayMs 500,
                    TimePoll, TaskDelayMs 500, TimePoll, LogI ''Time looks valid (fallback).'']) \<and>
   wait_for_time_blocking sntp_env_never 10000 [] =
     (Returned (), SntpSyncWait 1000 # failed_polls 10 @ [LogW ''Time not synced (timeout).''])"
proof -
  have y1: "clock_year sntp_env_late 3 = 2025" "\<forall>j<3. clock_year sntp_env_late j = 1970"
    by (simp_all add: clock_year_def sntp_env_late_def sntp_env_ok_def)
  have y2: "\<forall>j<10. clock_year sntp_env_never j = 1970"
    by (simp add: clock_year_def sntp_env_never_def sntp_env_ok_def)
  have t: "pdMS_TO_TICKS sntp_env_ok 10000 = 1000" "pdMS_TO_TICKS sntp_env_late 10000 = 1000"
    "pdMS_TO_TICKS sntp_env_never 10000 = 1000"
    by (simp_all add: sntp_env_ok_def sntp_env_late_def sntp_env_never_def)
  have r: "esp_netif_sntp_sync_wait sntp_env_ok 1000 = ESP_OK"
    "esp_netif_sntp_sync_wait sntp_env_late 1000 \<noteq> ESP_OK"
    "esp_netif_sntp_sync_wait sntp_env_never 1000 \<noteq> ESP_OK"
    by (simp_all add: sntp_env_ok_def sntp_env_late_def sntp_env_never_def ESP_OK_def ESP_ERR_TIMEOUT_def)
  have a: "wait_for_time_blocking sntp_env_ok 10000 [] =
     (Returned (), [SntpSyncWait 1000, LogI ''Time synced''])"
    using wait_for_time_blocking_always_returns [of sntp_env_ok 10000 "[]"] t r
    by (simp add: prod_eq_iff)
  have b: "wait_for_time_blocking sntp_env_late 10000 [] =
     (Returned (), [SntpSyncWait 1000] @ failed_polls 3 @ [TimePoll, LogI ''Time looks valid (fallback).''])"
    using wait_for_time_blocking_always_returns [of sntp_env_late 10000 "[]"] t r y1
    by (simp add: prod_eq_iff)
  have c: "wait_for_time_blocking sntp_env_never 10000 [] =
     (Returned (), SntpSyncWait 1000 # failed_polls 10 @ [LogW ''Time not synced (timeout).''])"
    using wait_for_time_blocking_always_returns [of sntp_env_never 10000 "[]"] t r y2
    by (simp add: prod_eq_iff)
  from a b c show ?thesis by (simp add: failed_polls_3)
qed

section \<open>Properties of the shared measurement record\<close>

subsection \<open>The invariant holds in every interleaving\<close>

lemma latest_snoc:
  "latest cur (h @ [Published d]) = d"
  "latest cur (h @ [Observed d]) = latest cur h"
  by (induction cur h rule: latest.induct) simp_all

lemma consistent_snoc:
  "consistent cur (h @ [Published d]) = consistent cur h"
  "consistent cur (h @ [Observed d]) = (consistent cur h \<and> d = latest cur h)"
  by (induction cur h rule: consistent.induct) auto

lemma store_inv_init: "store_inv (sys_init tmp0)"
  by (simp add: store_inv_def sys_init_def)

lemma store_inv_sensor:
  assumes "store_inv s"
  shows "store_inv (sensor_task_step env s)"
proof (cases "sensor_at s")
  case S_Read
  with assms show ?thesis by (auto simp add: store_inv_def sensor_task_step_def)
next
  case S_Take
  with assms show ?thesis
    by (cases "render_in_cs (render_at s)") (auto simp add: store_inv_def sensor_task_step_def)
next
  case S_CopyPressure
  with assms show ?thesis by (auto simp add: store_inv_def sensor_task_step_def)
next
  case S_CopyTemperature
  with assms show ?thesis by (auto simp add: store_inv_def sensor_task_step_def)
next
  case S_CopyHumidity
  with assms show ?thesis by (auto simp add: store_inv_def sensor_task_step_def)
next
  case S_Give
  with assms have "bme280_device_data s = tmp s"
    by (simp add: store_inv_def)
  with S_Give assms show ?thesis
    by (auto simp add: store_inv_def sensor_task_step_def latest_snoc consistent_snoc)
next
  case S_Delay
  with assms show ?thesis by (auto simp add: store_inv_def sensor_task_step_def)
qed

lemma store_inv_render:
  assumes "store_inv s"
  shows "store_inv (render_task_step env s)"
proof (cases "render_at s")
  case R_Compose
  with assms show ?thesis by (auto simp add: store_inv_def render_task_step_def)
next
  case R_Take
  with assms show ?thesis
    by (cases "sensor_in_cs (sensor_at s)") (auto simp add: store_inv_def render_task_step_def)
next
  case R_Temperature
  with assms show ?thesis by (auto simp add: store_inv_def render_task_step_def)
next
  case R_Pressure
  with assms show ?thesis by (auto simp add: store_inv_def render_task_step_def)
next
  case R_Humidity
  with assms show ?thesis by (auto simp add: store_inv_def render_task_step_def)
next
  case R_Give
  with assms have "snapshot s = bme280_device_data s" "\<not> sensor_in_cs (sensor_at s)"
    by (simp_all add: store_inv_def)
  with R_Give assms show ?thesis
    by (auto simp add: store_inv_def render_task_step_def latest_snoc consistent_snoc)
next
  case R_Draw
  with assms show ?thesis
    by (auto simp add: store_inv_def render_task_step_def Let_def split: outcome.splits)
qed

lemma store_inv_step: "store_inv s \<Longrightarrow> store_inv (step env who s)"
  by (cases who) (simp_all add: step_def store_inv_sensor store_inv_render)

lemma store_inv_run: "store_inv s \<Longrightarrow> store_inv (run env sched s)"
  by (induction sched arbitrary: s) (simp_all add: store_inv_step)

lemma consistent_split:
  "consistent cur (h1 @ Observed d # h2) \<Longrightarrow> d = latest cur h1"
  by (induction cur h1 rule: consistent.induct) simp_all

lemma latest_cases: "latest cur h = cur \<or> Published (latest cur h) \<in> set h"
  by (induction cur h rule: latest.induct) auto

lemma latest_no_publish:
  "\<forall>d. Published d \<notin> set h \<Longrightarrow> latest cur h = cur"
  by (induction cur h rule: latest.induct) auto

lemma latest_append: "latest cur (h1 @ h2) = latest (latest cur h1) h2"
  by (induction cur h1 rule: latest.induct) simp_all


lemma run_append: "run env (a @ b) s = run env b (run env a s)"
  by (induction a arbitrary: s) simp_all

lemma history_consistent:
  "consistent bme280_data_zero (history (run env sched (sys_init tmp0)))"
  using store_inv_run [OF store_inv_init, of env sched tmp0] by (simp add: store_inv_def)

text \<open>
  Claim C1. Take any interleaving of the two tasks, any readings of the sensor and any
  initial content of \<^verbatim>\<open>tmp\<close>. Every snapshot the reader completes (the three fields it
  read between taking and giving the lock) is the record most recently published before
  it: the all-zero initial record when nothing was published yet, and otherwise the
  argument of one completed publication, whole. It is never a mixture of two.
\<close>

theorem snapshot_never_mixes_publications:
  assumes "history (run env sched (sys_init tmp0)) = h1 @ Observed d # h2"
  shows "d = latest bme280_data_zero h1 \<and> (d = bme280_data_zero \<or> Published d \<in> set h1)"
proof -
  from history_consistent [of env sched tmp0] assms
  have "consistent bme280_data_zero (h1 @ Observed d # h2)" by simp
  then have "d = latest bme280_data_zero h1" by (rule consistent_split)
  with latest_cases [of bme280_data_zero h1] show ?thesis by auto
qed

lemmas task_defs =
  step_def sensor_task_step_def render_task_step_def sys_init_def

lemma interleaved_run:
  "history (run tasks_env_steady interleaved_schedule (sys_init other_record)) =
     [Published steady_record, Observed steady_record]"
  by (simp add: interleaved_schedule_def task_defs tasks_env_steady_def)

theorem snapshot_never_mixes_publications_witness:
  "history (run tasks_env_steady interleaved_schedule (sys_init other_record)) =
     [Published steady_record] @ Observed steady_record # [] \<and>
   steady_record = latest bme280_data_zero [Published steady_record] \<and>
   (steady_record = bme280_data_zero \<or> Published steady_record \<in> set [Published steady_record])"
proof -
  have h: "history (run tasks_env_steady interleaved_schedule (sys_init other_record)) =
     [Published steady_record] @ Observed steady_record # []"
    by (simp add: interleaved_run)
  from snapshot_never_mixes_publications [OF h] h show ?thesis by simp
qed

subsection \<open>Snapshots without a publication in between\<close>

lemma render_keeps_record:
  "bme280_device_data (render_task_step env s) = bme280_device_data s"
  by (cases "render_at s") (simp_all add: render_task_step_def Let_def split: outcome.splits)

text \<open>
  Claim C10. In every interleaving, two snapshots with no publication completed between
  them return identical records; and no step of the reader (so no snapshot) modifies the
  stored record.
\<close>

theorem repeated_snapshots_agree:
  assumes "history (run env sched (sys_init tmp0)) = h1 @ Observed a # h2 @ Observed b # h3"
    and "\<forall>d. Published d \<notin> set h2"
  shows "a = b \<and> bme280_device_data (render_task_step env s) = bme280_device_data s"
proof -
  from history_consistent [of env sched tmp0] assms(1)
  have c: "consistent bme280_data_zero (h1 @ Observed a # h2 @ Observed b # h3)" by simp
  then have a: "a = latest bme280_data_zero h1" by (rule consistent_split)
  from c have "consistent bme280_data_zero ((h1 @ Observed a # h2) @ Observed b # h3)" by simp
  then have "b = latest bme280_data_zero (h1 @ Observed a # h2)" by (rule consistent_split)
  then have "b = latest (latest bme280_data_zero h1) h2" by (simp add: latest_append)
  with assms(2) a show ?thesis by (simp add: latest_no_publish render_keeps_record)
qed

lemma sampling_cycle_steps:
  "sampling_cycle =
     [SensorTask, SensorTask, SensorTask, SensorTask, SensorTask, SensorTask, SensorTask]"
  by (simp add: sampling_cycle_def eval_nat_numeral)

lemma snapshot_steps_steps:
  "snapshot_steps = [RenderTask, RenderTask, RenderTask, RenderTask, RenderTask]"
  by (simp add: snapshot_steps_def eval_nat_numeral)

lemma two_snapshots_schedule_steps:
  "two_snapshots_schedule =
     [SensorTask, SensorTask, SensorTask, SensorTask, SensorTask, SensorTask, SensorTask,
      RenderTask, RenderTask, RenderTask, RenderTask, RenderTask, RenderTask, RenderTask,
      RenderTask, RenderTask, RenderTask, RenderTask, RenderTask, RenderTask]"
  by (simp add: two_snapshots_schedule_def sampling_cycle_def eval_nat_numeral)

lemma two_snapshots_run:
  "history (run tasks_env_steady two_snapshots_schedule (sys_init other_record)) =
     [Published steady_record, Observed steady_record, Observed steady_record]"
  by (simp add: two_snapshots_schedule_steps task_defs
      tasks_env_steady_def ESP_ERROR_CHECK_def ESP_OK_def Let_def)

theorem repeated_snapshots_agree_witness:
  "history (run tasks_env_steady two_snapshots_schedule (sys_init other_record)) =
     [Published steady_record] @ Observed steady_record # [] @ Observed steady_record # [] \<and>
   (\<forall>d. Published d \<notin> set []) \<and> steady_record = steady_record"
proof -
  have h: "history (run tasks_env_steady two_snapshots_schedule (sys_init other_record)) =
     [Published steady_record] @ Observed steady_record # [] @ Observed steady_record # []"
    by (simp add: two_snapshots_run)
  have n: "\<forall>d. Published d \<notin> set []" by simp
  from repeated_snapshots_agree [OF h n] h show ?thesis by simp
qed

subsection \<open>Evaluating the number model on numerals\<close>

lemma bit_length_numeral [simp]:
  "bit_length 0 = 0"
  "bit_length (Suc 0) = Suc 0"
  "bit_length (numeral k) = Suc (bit_length (numeral k div 2))"
  by (simp_all add: bit_length.simps)

lemma dec_numeral [simp]:
  "dec 0 = ''0''"
  "dec (Suc 0) = ''1''"
  "dec (numeral k) =
     (if (numeral k :: nat) < 10 then [''0123456789'' ! (numeral k)]
      else dec (numeral k div 10) @ [''0123456789'' ! (numeral k mod 10)])"
  by (simp_all add: dec.simps)

lemmas double_defs =
  double_literal_def round_to_double_def round_half_even_def double_100_def pad_zero_def
  snprintf_def Let_def

lemma steady_temperature: "double_literal 213 10 = Finite False 5995417003936973 (- 48)"
  by (simp add: double_defs)

lemma steady_pressure: "double_literal 101325 1 = Finite False 6963000980275200 (- 36)"
  by (simp add: double_defs)

lemma steady_pressure_hPa:
  "double_div (Finite False 6963000980275200 (- 36)) double_100 =
     Finite False 8912641254752256 (- 43)"
  by (simp add: double_defs)

lemma steady_humidity: "double_literal 45 1 = Finite False 6333186975989760 (- 47)"
  by (simp add: double_defs)

lemma format_temperature_steady: "format_temperature steady_record = ''Temp-21.3C''"
  by (simp add: format_temperature_def steady_record_def steady_temperature double_defs)

lemma format_pressure_steady: "format_pressure steady_record = ''Pres-1013.25hPa''"
  by (simp add: format_pressure_def steady_record_def steady_pressure steady_pressure_hPa)
     (simp add: double_defs)

lemma format_humidity_steady: "format_humidity steady_record = ''Hum-45.0%''"
  by (simp add: format_humidity_def steady_record_def steady_humidity double_defs)

subsection \<open>The steady-state scenario\<close>

text \<open>
  Claim C4. With the record \<open>{temperature = 21.3, pressure = 101325, humidity = 45.0}\<close>
  stored and the lock free, the reader's pass from taking the lock to giving it formats
  exactly \<^verbatim>\<open>"Temp-21.3C"\<close>, \<^verbatim>\<open>"Pres-1013.25hPa"\<close> (the pressure divided by 100.0 and
  printed with two decimals) and \<^verbatim>\<open>"Hum-45.0%"\<close>, and the snapshot it completes is that
  record.
\<close>

theorem render_pass_formats_steady_record:
  assumes "bme280_device_data s = steady_record" and "render_at s = R_Take"
    and "s_bme_lock s = None" and "\<not> halted s"
  shows "temperature_str (run env snapshot_steps s) = ''Temp-21.3C'' \<and>
         pressure_str (run env snapshot_steps s) = ''Pres-1013.25hPa'' \<and>
         humidity_str (run env snapshot_steps s) = ''Hum-45.0%'' \<and>
         history (run env snapshot_steps s) = history s @ [Observed steady_record]"
proof -
  have "snapshot s\<lparr>temperature := temperature steady_record, pressure := pressure steady_record,
          humidity := humidity steady_record\<rparr> = steady_record"
    by (cases "snapshot s"; cases steady_record) simp
  with assms show ?thesis
    by (simp add: snapshot_steps_steps step_def render_task_step_def
        format_temperature_steady format_pressure_steady format_humidity_steady)
qed

lemma steady_state_reached:
  "bme280_device_data (run tasks_env_steady (sampling_cycle @ [RenderTask]) (sys_init other_record))
     = steady_record \<and>
   render_at (run tasks_env_steady (sampling_cycle @ [RenderTask]) (sys_init other_record)) = R_Take \<and>
   s_bme_lock (run tasks_env_steady (sampling_cycle @ [RenderTask]) (sys_init other_record)) = None \<and>
   \<not> halted (run tasks_env_steady (sampling_cycle @ [RenderTask]) (sys_init other_record))"
  by (simp add: sampling_cycle_steps task_defs tasks_env_steady_def)

theorem render_pass_formats_steady_record_witness:
  "temperature_str (run tasks_env_steady (sampling_cycle @ RenderTask # snapshot_steps)
                     (sys_init other_record)) = ''Temp-21.3C'' \<and>
   pressure_str (run tasks_env_steady (sampling_cycle @ RenderTask # snapshot_steps)
                     (sys_init other_record)) = ''Pres-1013.25hPa'' \<and>
   humidity_str (run tasks_env_steady (sampling_cycle @ RenderTask # snapshot_steps)
                     (sys_init other_record)) = ''Hum-45.0%''"
proof -
  have split: "sampling_cycle @ RenderTask # snapshot_steps =
                 (sampling_cycle @ [RenderTask]) @ snapshot_steps" by simp
  from steady_state_reached
  have "temperature_str (run tasks_env_steady snapshot_steps
           (run tasks_env_steady (sampling_cycle @ [RenderTask]) (sys_init other_record))) = ''Temp-21.3C'' \<and>
        pressure_str (run tasks_env_steady snapshot_steps
           (run tasks_env_steady (sampling_cycle @ [RenderTask]) (sys_init other_record))) = ''Pres-1013.25hPa'' \<and>
        humidity_str (run tasks_env_steady snapshot_steps
           (run tasks_env_steady (sampling_cycle @ [RenderTask]) (sys_init other_record))) = ''Hum-45.0%''"
    using render_pass_formats_steady_record
            [of "run tasks_env_steady (sampling_cycle @ [RenderTask]) (sys_init other_record)"
                tasks_env_steady]
    by blast
  then show ?thesis
    unfolding split run_append .
qed

end
